(* ===== verification/Prelude.thy ===== *)
theory Prelude
  imports Main "HOL-Library.List_Lexorder" "HOL-Library.Char_ord"
begin

text \<open>
  Python semantics shared by the components of the relation-classification
  preprocessing (\<open>src/examples/relation_classification/utils.py\<close>): list and
  string slicing \<open>xs[i:j]\<close> with Python's clamping and negative indices,
  \<open>' '.join\<close>, \<open>str.rstrip()\<close>, the dictionary \<open>{x: i + k for i, x in
  enumerate(xs)}\<close>, \<open>str(n)\<close> for a natural number, and the exception raised by a
  missing dictionary key. Python strings are modelled as \<open>string\<close>; a character is
  one code point of the 8-bit range, which is what \<open>len\<close> and slicing count.
\<close>

named_theorems py_simps "evaluation rules of the Python primitives"

type_synonym py_str = string

text \<open>The exceptions the code can raise: \<open>KeyError(key)\<close> and \<open>TypeError\<close> with
  the operator whose operands had the wrong type.\<close>

datatype py_error = KeyError py_str | TypeError py_str

type_synonym 'a py_result = "py_error + 'a"

subsection \<open>Slicing\<close>

text \<open>
  \<open>xs[i:j]\<close>: a negative bound counts from the end, every bound is clamped to
  \<open>[0, len(xs)]\<close>, and an empty range gives the empty list; slicing never raises.
\<close>

definition py_index :: "nat \<Rightarrow> int \<Rightarrow> nat" where
  "py_index n i = (if i < 0 then nat (max 0 (i + int n)) else nat (min i (int n)))"

definition py_slice :: "'a list \<Rightarrow> int \<Rightarrow> int \<Rightarrow> 'a list" where
  "py_slice xs i j =
     (let n = length xs; a = py_index n i; b = py_index n j in take (b - a) (drop a xs))"

text \<open>\<open>xs[i:]\<close>\<close>

definition py_slice_from :: "'a list \<Rightarrow> int \<Rightarrow> 'a list" where
  "py_slice_from xs i = py_slice xs i (int (length xs))"

text \<open>\<open>xs[i:j]\<close> where a bound may be \<open>None\<close>: a missing start is \<open>0\<close>, a
  missing stop is \<open>len(xs)\<close>.\<close>

definition py_slice_opt :: "'a list \<Rightarrow> int option \<Rightarrow> int option \<Rightarrow> 'a list" where
  "py_slice_opt xs i j =
     py_slice xs (case i of None \<Rightarrow> 0 | Some a \<Rightarrow> a) (case j of None \<Rightarrow> int (length xs) | Some b \<Rightarrow> b)"

subsection \<open>Joining and stripping strings\<close>

text \<open>\<open>sep.join(xs)\<close>\<close>

fun py_join :: "py_str \<Rightarrow> py_str list \<Rightarrow> py_str" where
  "py_join sep [] = []"
| "py_join sep [x] = x"
| "py_join sep (x # xs) = x @ sep @ py_join sep xs"

text \<open>
  \<open>str.isspace\<close> on one character of the 8-bit range: tab, line feed, vertical tab,
  form feed, carriage return, the separators 0x1c to 0x1f, space, 0x85 and 0xa0.
\<close>

definition py_isspace :: "char \<Rightarrow> bool" where
  "py_isspace c =
     (let n = (of_char c :: nat) in (9 \<le> n \<and> n \<le> 13) \<or> (28 \<le> n \<and> n \<le> 32) \<or> n = 133 \<or> n = 160)"

text \<open>\<open>str.rstrip()\<close> with no argument removes trailing whitespace.\<close>

definition rstrip :: "py_str \<Rightarrow> py_str" where
  "rstrip s = rev (dropWhile py_isspace (rev s))"

subsection \<open>Dictionaries built from \<open>enumerate\<close>\<close>

text \<open>
  \<open>{x: i + k for i, x in enumerate(xs)}\<close>: the entries are inserted in list order,
  so a later duplicate overwrites an earlier one.
\<close>

definition py_enum_step :: "int \<Rightarrow> nat \<times> 'a \<Rightarrow> ('a \<rightharpoonup> int) \<Rightarrow> ('a \<rightharpoonup> int)" where
  "py_enum_step k = (\<lambda>(i, x) m. m(x \<mapsto> int i + k))"

definition py_enum_dict :: "int \<Rightarrow> 'a list \<Rightarrow> ('a \<rightharpoonup> int)" where
  "py_enum_dict k xs = fold (py_enum_step k) (enumerate 0 xs) Map.empty"

text \<open>\<open>d[key]\<close>: a missing key raises \<open>KeyError\<close>.\<close>

definition py_getitem :: "(py_str \<rightharpoonup> 'v) \<Rightarrow> py_str \<Rightarrow> 'v py_result" where
  "py_getitem d k = (case d k of None \<Rightarrow> Inl (KeyError k) | Some v \<Rightarrow> Inr v)"

subsection \<open>Decimal rendering, \<open>str(n)\<close>\<close>

definition py_digit :: "nat \<Rightarrow> char" where
  "py_digit d = char_of (48 + d)"

fun py_str_nat :: "nat \<Rightarrow> py_str" where
  "py_str_nat n = (if n < 10 then [py_digit n] else py_str_nat (n div 10) @ [py_digit (n mod 10)])"

declare py_str_nat.simps [simp del]

text \<open>\<open>int(s)\<close> on a string of decimal digits.\<close>

definition py_int_of_str :: "py_str \<Rightarrow> nat" where
  "py_int_of_str s = foldl (\<lambda>acc c. 10 * acc + (of_char c - 48)) 0 s"

section \<open>Lemmas\<close>

subsection \<open>Slicing\<close>

lemma py_index_nonneg [py_simps]: "0 \<le> i \<Longrightarrow> py_index n i = min (nat i) n"
  by (auto simp: py_index_def min_def)

lemma py_slice_nonneg [py_simps]:
  assumes "0 \<le> i" and "0 \<le> j"
  shows "py_slice xs i j = take (nat j - nat i) (drop (nat i) xs)"
proof (cases "nat j \<le> length xs")
  case True
  then show ?thesis using assms by (auto simp: py_slice_def py_index_nonneg min_def Let_def)
next
  case False
  then have "length (drop (nat i) xs) \<le> nat j - nat i" by simp
  then show ?thesis using assms False by (auto simp: py_slice_def py_index_nonneg min_def Let_def)
qed

lemma py_slice_int: "py_slice xs (int a) (int b) = take (b - a) (drop a xs)"
  by (simp add: py_slice_nonneg)

lemma py_slice_from_nonneg [py_simps]: "0 \<le> i \<Longrightarrow> py_slice_from xs i = drop (nat i) xs"
  by (simp add: py_slice_from_def py_slice_nonneg)

lemma py_slice_opt_Some [simp]: "py_slice_opt xs (Some i) (Some j) = py_slice xs i j"
  by (simp add: py_slice_opt_def)

lemma py_slice_opt_from [simp]: "py_slice_opt xs (Some i) None = py_slice_from xs i"
  by (simp add: py_slice_opt_def py_slice_from_def)

lemma py_slice_append_mid [py_simps]:
  "py_slice (xs @ ys @ zs) (int (length xs)) (int (length xs + length ys)) = ys"
  by (simp add: py_slice_nonneg)

lemma py_slice_append_prefix:
  assumes "0 \<le> i" and "0 \<le> j" and "nat j \<le> length xs"
  shows "py_slice (xs @ ys) i j = py_slice xs i j"
  using assms by (simp add: py_slice_nonneg)

text \<open>A slice starting at or past the end is empty; a slice from 0 to at least the
  end is the whole list.\<close>

lemma py_slice_past_end [py_simps]: "int (length xs) \<le> i \<Longrightarrow> py_slice xs i j = []"
  by (simp add: py_slice_def py_index_def)

lemma py_slice_to_end [py_simps]: "int (length xs) \<le> j \<Longrightarrow> py_slice xs 0 j = xs"
  by (simp add: py_slice_def py_index_def)

subsection \<open>Joining\<close>

lemma py_join_append:
  "xs \<noteq> [] \<Longrightarrow> ys \<noteq> [] \<Longrightarrow> py_join sep (xs @ ys) = py_join sep xs @ sep @ py_join sep ys"
  by (induction sep xs rule: py_join.induct) (auto simp: neq_Nil_conv)

lemma py_join_eq_Nil:
  "\<forall>x\<in>set xs. x \<noteq> [] \<Longrightarrow> py_join sep xs = [] \<longleftrightarrow> xs = []"
  by (induction sep xs rule: py_join.induct) auto

lemma py_join_take_drop:
  "0 < k \<Longrightarrow> k < length xs \<Longrightarrow> py_join sep (take k xs) @ sep @ py_join sep (drop k xs) = py_join sep xs"
proof -
  assume "0 < k" and "k < length xs"
  then have "take k xs \<noteq> []" and "drop k xs \<noteq> []" by auto
  then show ?thesis using py_join_append [of "take k xs" "drop k xs" sep] by simp
qed

lemma py_join_last:
  assumes "xs \<noteq> []" and "last xs \<noteq> []"
  shows "py_join sep xs \<noteq> [] \<and> last (py_join sep xs) = last (last xs)"
proof -
  obtain ys y where xs: "xs = ys @ [y]" using assms(1) by (metis rev_exhaust)
  show ?thesis
  proof (cases "ys = []")
    case True
    then show ?thesis using xs assms(2) by simp
  next
    case False
    then show ?thesis using xs assms(2) by (simp add: py_join_append)
  qed
qed

subsection \<open>rstrip\<close>

lemma rstrip_append_space:
  "\<forall>c\<in>set ys. py_isspace c \<Longrightarrow> rstrip (xs @ ys) = rstrip xs"
  by (simp add: rstrip_def dropWhile_append)

lemma rstrip_append_nonspace:
  "\<exists>c\<in>set ys. \<not> py_isspace c \<Longrightarrow> rstrip (xs @ ys) = xs @ rstrip ys"
  by (auto simp: rstrip_def dropWhile_append)

lemma rstrip_eq_Nil: "rstrip ys = [] \<longleftrightarrow> (\<forall>c\<in>set ys. py_isspace c)"
  by (simp add: rstrip_def)

text \<open>Only the stripped suffix matters to the stripped whole.\<close>

lemma rstrip_append_cong:
  assumes "rstrip ys = rstrip zs"
  shows "rstrip (xs @ ys) = rstrip (xs @ zs)"
proof (cases "\<forall>c\<in>set ys. py_isspace c")
  case True
  then have "\<forall>c\<in>set zs. py_isspace c" using assms by (simp add: rstrip_eq_Nil [symmetric])
  then show ?thesis using True by (simp add: rstrip_append_space)
next
  case False
  then have "\<exists>c\<in>set zs. \<not> py_isspace c" using assms by (metis rstrip_eq_Nil)
  then show ?thesis using False assms by (simp add: rstrip_append_nonspace)
qed

lemma rstrip_split: "\<exists>w. xs = rstrip xs @ w \<and> (\<forall>c\<in>set w. py_isspace c)"
proof -
  have "rev xs = takeWhile py_isspace (rev xs) @ dropWhile py_isspace (rev xs)" by simp
  then have "xs = rstrip xs @ rev (takeWhile py_isspace (rev xs))"
    by (metis rev_append rev_rev_ident rstrip_def)
  moreover have "\<forall>c\<in>set (rev (takeWhile py_isspace (rev xs))). py_isspace c"
    by (auto dest: set_takeWhileD)
  ultimately show ?thesis by blast
qed

lemma rstrip_take_space:
  "\<forall>c\<in>set (drop a xs). py_isspace c \<Longrightarrow> rstrip (take a xs) = rstrip xs"
  by (metis append_take_drop_id rstrip_append_space)

lemma rstrip_last_nonspace: "xs \<noteq> [] \<Longrightarrow> \<not> py_isspace (last xs) \<Longrightarrow> rstrip xs = xs"
  by (induction xs rule: rev_induct) (simp_all add: rstrip_def)

text \<open>Slicing after stripping and stripping the slice agree.\<close>

lemma rstrip_py_slice_rstrip:
  assumes "0 \<le> s" and "0 \<le> e"
  shows "rstrip (py_slice (rstrip t) s e) = rstrip (py_slice t s e)"
proof -
  define k where "k = length (rstrip t)"
  obtain w where tw: "t = rstrip t @ w" and ws: "\<forall>c\<in>set w. py_isspace c"
    using rstrip_split by blast
  have "take k t = take k (rstrip t @ w)" and "drop k t = drop k (rstrip t @ w)"
    by (rule arg_cong [OF tw])+
  then have split: "rstrip t = take k t" and sp: "\<forall>c\<in>set (drop k t). py_isspace c"
    using ws by (simp_all add: k_def)
  let ?a = "nat s" and ?b = "nat e"
  let ?x = "take (?b - ?a) (drop ?a t)"
  have whole: "py_slice t s e = ?x"
    using assms by (simp add: py_slice_nonneg)
  show ?thesis
  proof (cases "?a \<le> k")
    case True
    have eq: "py_slice (rstrip t) s e = take (k - ?a) ?x"
      using assms True by (simp add: py_slice_nonneg split take_drop min.commute)
    have "\<forall>c\<in>set (drop (k - ?a) ?x). py_isspace c"
      using sp True by (auto dest!: in_set_takeD simp: drop_take)
    then have "rstrip (take (k - ?a) ?x) = rstrip ?x"
      by (rule rstrip_take_space)
    then show ?thesis by (simp only: eq whole)
  next
    case False
    then have eq: "py_slice (rstrip t) s e = []"
      using assms by (simp add: py_slice_nonneg split)
    have "set ?x \<subseteq> set (drop k t)"
    proof -
      have "drop ?a t = drop (?a - k) (drop k t)" using False by simp
      then show ?thesis by (metis set_drop_subset set_take_subset subset_trans)
    qed
    then have "\<forall>c\<in>set ?x. py_isspace c"
      using sp by blast
    then have "rstrip ?x = []"
      by (simp add: rstrip_def)
    moreover have "rstrip [] = []"
      by (simp add: rstrip_def)
    ultimately show ?thesis by (simp only: eq whole)
  qed
qed

subsection \<open>Dictionaries built from \<open>enumerate\<close>\<close>

lemma py_enum_step_apply [simp]: "py_enum_step k (i, x) m = m(x \<mapsto> int i + k)"
  by (simp add: py_enum_step_def)

lemma fold_enum_notin:
  "y \<notin> set xs \<Longrightarrow> fold (py_enum_step k) (enumerate n xs) m y = m y"
  by (induction xs arbitrary: n m) auto

lemma fold_enum_dom:
  "dom (fold (py_enum_step k) (enumerate n xs) m) = dom m \<union> set xs"
  by (induction xs arbitrary: n m) auto

lemma fold_enum_nth:
  assumes "distinct xs" and "i < length xs"
  shows "fold (py_enum_step k) (enumerate n xs) m (xs ! i) = Some (int (n + i) + k)"
  using assms
proof (induction xs arbitrary: n m i)
  case Nil
  then show ?case by simp
next
  case (Cons x xs)
  show ?case
  proof (cases i)
    case 0
    have "x \<notin> set xs" using Cons.prems by simp
    then show ?thesis
      using fold_enum_notin [of x xs k "Suc n" "m(x \<mapsto> int n + k)"] 0 by simp
  next
    case (Suc j)
    then show ?thesis using Cons by simp
  qed
qed

lemma dom_py_enum_dict [py_simps]: "dom (py_enum_dict k xs) = set xs"
  by (simp add: py_enum_dict_def fold_enum_dom)

lemma py_enum_dict_nth [py_simps]:
  "distinct xs \<Longrightarrow> i < length xs \<Longrightarrow> py_enum_dict k xs (xs ! i) = Some (int i + k)"
  by (simp add: py_enum_dict_def fold_enum_nth)

lemma fold_enum_range:
  assumes "\<forall>y w. m y = Some w \<longrightarrow> k \<le> w \<and> w < int n + k"
    and "fold (py_enum_step k) (enumerate n xs) m x = Some v"
  shows "k \<le> v \<and> v < int (n + length xs) + k"
  using assms
proof (induction xs arbitrary: n m)
  case Nil
  then show ?case by auto
next
  case (Cons y ys)
  have "\<forall>z w. m z = Some w \<longrightarrow> k \<le> w \<and> w < int (Suc n) + k"
    using Cons.prems(1) by force
  then have "\<forall>z w. (m(y \<mapsto> int n + k)) z = Some w \<longrightarrow> k \<le> w \<and> w < int (Suc n) + k"
    by auto
  moreover have "fold (py_enum_step k) (enumerate (Suc n) ys) (m(y \<mapsto> int n + k)) x = Some v"
    using Cons.prems(2) by simp
  ultimately have "k \<le> v \<and> v < int (Suc n + length ys) + k"
    by (rule Cons.IH)
  then show ?case by simp
qed

lemma py_enum_dict_range:
  "py_enum_dict k xs x = Some v \<Longrightarrow> k \<le> v \<and> v < int (length xs) + k"
  using fold_enum_range [of Map.empty k 0] by (simp add: py_enum_dict_def)

lemma py_enum_dict_inverse:
  assumes "distinct xs" and "py_enum_dict k xs x = Some v"
  shows "k \<le> v \<and> nat (v - k) < length xs \<and> xs ! nat (v - k) = x"
proof -
  have "x \<in> set xs" using assms(2) dom_py_enum_dict [of k xs] by blast
  then obtain i where i: "i < length xs" "xs ! i = x" by (auto simp: in_set_conv_nth)
  then have "py_enum_dict k xs x = Some (int i + k)" using assms(1) py_enum_dict_nth by blast
  then show ?thesis using assms(2) i by simp
qed

lemma py_enum_dict_snoc:
  "py_enum_dict k (xs @ [z]) = (py_enum_dict k xs)(z \<mapsto> int (length xs) + k)"
  by (simp add: py_enum_dict_def enumerate_append_eq)

text \<open>With duplicates, a key maps to its last position.\<close>

lemma py_enum_dict_last:
  "py_enum_dict k xs x = Some v \<longleftrightarrow>
     k \<le> v \<and> nat (v - k) < length xs \<and> xs ! nat (v - k) = x \<and>
     (\<forall>j < length xs. nat (v - k) < j \<longrightarrow> xs ! j \<noteq> x)"
proof (induction xs arbitrary: v rule: rev_induct)
  case Nil
  then show ?case by (simp add: py_enum_dict_def)
next
  case (snoc z xs)
  show ?case
  proof (cases "x = z")
    case True
    have "(k \<le> v \<and> nat (v - k) < length (xs @ [z]) \<and> (xs @ [z]) ! nat (v - k) = x \<and>
         (\<forall>j < length (xs @ [z]). nat (v - k) < j \<longrightarrow> (xs @ [z]) ! j \<noteq> x)) \<longleftrightarrow>
        v = int (length xs) + k"
    proof
      assume r: "k \<le> v \<and> nat (v - k) < length (xs @ [z]) \<and> (xs @ [z]) ! nat (v - k) = x \<and>
         (\<forall>j < length (xs @ [z]). nat (v - k) < j \<longrightarrow> (xs @ [z]) ! j \<noteq> x)"
      then have "\<not> nat (v - k) < length xs" using True by (metis length_append_singleton lessI nth_append_length)
      then have "nat (v - k) = length xs" using r by simp
      then show "v = int (length xs) + k" using r by (simp add: nat_eq_iff)
    qed (simp add: True)
    then show ?thesis using True by (auto simp: py_enum_dict_snoc)
  next
    case False
    have "(k \<le> v \<and> nat (v - k) < length (xs @ [z]) \<and> (xs @ [z]) ! nat (v - k) = x \<and>
         (\<forall>j < length (xs @ [z]). nat (v - k) < j \<longrightarrow> (xs @ [z]) ! j \<noteq> x)) \<longleftrightarrow>
        (k \<le> v \<and> nat (v - k) < length xs \<and> xs ! nat (v - k) = x \<and>
         (\<forall>j < length xs. nat (v - k) < j \<longrightarrow> xs ! j \<noteq> x))"
      using False by (auto simp: nth_append less_Suc_eq)
    then show ?thesis using False snoc.IH by (simp add: py_enum_dict_snoc)
  qed
qed

lemma py_getitem_Some [py_simps]: "d k = Some v \<Longrightarrow> py_getitem d k = Inr v"
  by (simp add: py_getitem_def)

lemma py_getitem_None [py_simps]: "d k = None \<Longrightarrow> py_getitem d k = Inl (KeyError k)"
  by (simp add: py_getitem_def)

subsection \<open>Decimal rendering\<close>

lemma of_char_py_digit: "d < 10 \<Longrightarrow> of_char (py_digit d) = 48 + d"
  by (simp add: py_digit_def)

lemma py_int_of_str_snoc:
  "py_int_of_str (s @ [c]) = 10 * py_int_of_str s + (of_char c - 48)"
  by (simp add: py_int_of_str_def)

lemma py_int_of_str_py_str_nat [py_simps]: "py_int_of_str (py_str_nat n) = n"
proof (induction n rule: py_str_nat.induct)
  case (1 n)
  show ?case
  proof (cases "n < 10")
    case True
    then show ?thesis
      by (simp add: py_str_nat.simps [of n] py_int_of_str_def of_char_py_digit)
  next
    case False
    then have "py_int_of_str (py_str_nat n) = 10 * (n div 10) + n mod 10"
      using "1.IH" by (simp add: py_str_nat.simps [of n] py_int_of_str_snoc of_char_py_digit)
    then show ?thesis by simp
  qed
qed

lemma py_str_nat_inj: "py_str_nat m = py_str_nat n \<Longrightarrow> m = n"
  by (metis py_int_of_str_py_str_nat)

end
