(* ===== verification/Example_Builder.thy ===== *)
theory Example_Builder
  imports Prelude
begin

text \<open>
  The example builder, \<open>DatasetProcessor._create_examples\<close> of
  \<open>src/examples/relation_classification/utils.py\<close> (lines 55--88): each JSON
  record (a token list, inclusive token spans of subject and object, their types and the
  relation) becomes an \<open>InputExample\<close> whose text is the space-joined tokens and whose
  spans are character offsets into that text. Opening and parsing the JSON file (lines
  56--57) are not modelled: a split is the list of its records. The loop over the two entities is
  \<open>build_loop\<close> over \<open>build_step\<close>, with the loop variables \<open>text\<close>, \<open>cur\<close> and
  \<open>char_spans\<close> as the record \<open>build_state\<close>.
\<close>

section \<open>Definitions\<close>

text \<open>One JSON record of \<open>train.json\<close>, \<open>dev.json\<close> or \<open>test.json\<close>.\<close>

record raw_item =
  token :: "py_str list"
  subj_start :: int
  subj_end :: int
  obj_start :: int
  obj_end :: int
  subj_type :: py_str
  obj_type :: py_str
  relation :: py_str

text \<open>\<open>InputExample\<close> (lines 14--22). A span is the two-element list
  \<open>char_spans[e]\<close> the builder passes in, \<open>[start, end]\<close>, whose entries start as
  \<open>None\<close> (line 72).\<close>

record input_example =
  ex_id :: py_str
  ex_text :: py_str
  span_a :: "int option \<times> int option"
  span_b :: "int option \<times> int option"
  type_a :: py_str
  type_b :: py_str
  ex_label :: py_str

text \<open>The keys \<open>'subj'\<close> and \<open>'obj'\<close> of the dictionaries \<open>token_spans\<close> and \<open>char_spans\<close>.\<close>

datatype entity = Subj | Obj

text \<open>\<open>token_spans\<close>: half-open token ranges, the inclusive end plus one (lines 62--63).\<close>

definition token_spans :: "raw_item \<Rightarrow> entity \<Rightarrow> int \<times> int" where
  "token_spans item e =
     (case e of
       Subj \<Rightarrow> (subj_start item, subj_end item + 1)
     | Obj \<Rightarrow> (obj_start item, obj_end item + 1))"

text \<open>Lines 65--68: the subject goes first only when it starts strictly earlier.\<close>

definition entity_order :: "raw_item \<Rightarrow> entity list" where
  "entity_order item =
     (if fst (token_spans item Subj) < fst (token_spans item Obj) then [Subj, Obj] else [Obj, Subj])"

text \<open>The loop variables of lines 70--81; \<open>char_spans\<close> maps each entity to its
  list \<open>[start, end]\<close>, \<open>[None, None]\<close> until the loop visits it.\<close>

record build_state =
  b_text :: py_str
  b_cur :: int
  char_spans :: "entity \<Rightarrow> int option \<times> int option"

definition build_init :: build_state where
  "build_init = \<lparr>b_text = [], b_cur = 0, char_spans = (\<lambda>e. (None, None))\<rparr>"

text \<open>One iteration of the loop body, lines 74--81.\<close>

definition build_step ::
  "py_str list \<Rightarrow> (entity \<Rightarrow> int \<times> int) \<Rightarrow> build_state \<Rightarrow> entity \<Rightarrow> build_state" where
  "build_step tokens tspans st target =
     (let span = tspans target;
          t1 = b_text st @ py_join '' '' (py_slice tokens (b_cur st) (fst span));
          t2 = (if t1 \<noteq> [] then t1 @ '' '' else t1);
          t3 = t2 @ py_join '' '' (py_slice tokens (fst span) (snd span)) @ '' ''
      in st\<lparr>b_text := t3, b_cur := snd span,
            char_spans := (char_spans st)(target := (Some (int (length t2)), Some (int (length t3))))\<rparr>)"

fun build_loop ::
  "py_str list \<Rightarrow> (entity \<Rightarrow> int \<times> int) \<Rightarrow> build_state \<Rightarrow> entity list \<Rightarrow> build_state" where
  "build_loop tokens tspans st [] = st"
| "build_loop tokens tspans st (e # es) = build_loop tokens tspans (build_step tokens tspans st e) es"

text \<open>Lines 70--82: the loop, then the tokens after the last entity (before \<open>rstrip\<close>).\<close>

definition build_text :: "raw_item \<Rightarrow> build_state" where
  "build_text item =
     (let st = build_loop (token item) (token_spans item) build_init (entity_order item)
      in st\<lparr>b_text := b_text st @ py_join '' '' (py_slice_from (token item) (b_cur st))\<rparr>)"

text \<open>Lines 83--86 for the record at position \<open>i\<close> of split \<open>set_type\<close>.\<close>

definition create_example :: "py_str \<Rightarrow> nat \<Rightarrow> raw_item \<Rightarrow> input_example" where
  "create_example set_type i item =
     (let st = build_text item
      in \<lparr>ex_id = set_type @ ''-'' @ py_str_nat i, ex_text = rstrip (b_text st),
          span_a = char_spans st Subj, span_b = char_spans st Obj,
          type_a = subj_type item, type_b = obj_type item, ex_label = relation item\<rparr>)"

text \<open>The loop of \<open>_create_examples\<close> over \<open>data\<close>, the records \<open>json.load\<close>
  returned (lines 59--88): one example per record, in order.\<close>

definition create_examples :: "py_str \<Rightarrow> raw_item list \<Rightarrow> input_example list" where
  "create_examples set_type data =
     map (\<lambda>(i, item). create_example set_type i item) (enumerate 0 data)"

text \<open>\<open>get_train_examples\<close>, \<open>get_dev_examples\<close>, \<open>get_test_examples\<close> (lines
  39--46): the split's records, read from \<open>train.json\<close>, \<open>dev.json\<close>, \<open>test.json\<close>.\<close>

definition get_train_examples :: "raw_item list \<Rightarrow> input_example list" where
  "get_train_examples items = create_examples ''train'' items"

definition get_dev_examples :: "raw_item list \<Rightarrow> input_example list" where
  "get_dev_examples items = create_examples ''dev'' items"

definition get_test_examples :: "raw_item list \<Rightarrow> input_example list" where
  "get_test_examples items = create_examples ''test'' items"

text \<open>What the code means \<open>char_spans\<close> to hold: every span recorded so far lies in
  the text built so far and slices out the entity's space-joined tokens and one space.\<close>

definition entity_words :: "py_str list \<Rightarrow> (entity \<Rightarrow> int \<times> int) \<Rightarrow> entity \<Rightarrow> py_str" where
  "entity_words tokens tspans e = py_join '' '' (py_slice tokens (fst (tspans e)) (snd (tspans e)))"

definition spans_inv :: "py_str list \<Rightarrow> (entity \<Rightarrow> int \<times> int) \<Rightarrow> build_state \<Rightarrow> bool" where
  "spans_inv tokens tspans st =
     (\<forall>e a b. char_spans st e = (Some a, Some b) \<longrightarrow>
        0 \<le> a \<and> a < b \<and> nat b \<le> length (b_text st) \<and>
        py_slice (b_text st) a b = entity_words tokens tspans e @ '' '')"

section \<open>Lemmas\<close>

subsection \<open>One iteration\<close>

lemma build_step_text:
  "\<exists>w. b_text (build_step tokens tspans st e) = b_text st @ w"
  by (auto simp: build_step_def Let_def)

lemma build_step_span:
  "\<exists>a b. char_spans (build_step tokens tspans st e) e = (Some a, Some b) \<and>
     int (length (b_text st)) \<le> a \<and> a < b \<and> nat b = length (b_text (build_step tokens tspans st e)) \<and>
     py_slice (b_text (build_step tokens tspans st e)) a b = entity_words tokens tspans e @ '' ''"
proof -
  define t1 where "t1 = b_text st @ py_join '' '' (py_slice tokens (b_cur st) (fst (tspans e)))"
  define t2 where "t2 = (if t1 \<noteq> [] then t1 @ '' '' else t1)"
  define w where "w = entity_words tokens tspans e @ '' ''"
  have st': "build_step tokens tspans st e =
      st\<lparr>b_text := t2 @ w, b_cur := snd (tspans e),
         char_spans := (char_spans st)(e := (Some (int (length t2)), Some (int (length (t2 @ w)))))\<rparr>"
    by (simp add: build_step_def Let_def t1_def t2_def w_def entity_words_def)
  have "length (b_text st) \<le> length t2" by (simp add: t1_def t2_def)
  moreover have "py_slice (t2 @ w @ []) (int (length t2)) (int (length t2 + length w)) = w"
    by (rule py_slice_append_mid)
  ultimately show ?thesis by (simp add: st' w_def)
qed

lemma build_step_other:
  "e' \<noteq> e \<Longrightarrow> char_spans (build_step tokens tspans st e) e' = char_spans st e'"
  by (simp add: build_step_def Let_def)

lemma build_step_set:
  "\<exists>a b. char_spans st e' = (Some a, Some b) \<Longrightarrow>
   \<exists>a b. char_spans (build_step tokens tspans st e) e' = (Some a, Some b)"
  by (cases "e' = e") (auto simp: build_step_def Let_def)

lemma spans_inv_step:
  assumes inv: "spans_inv tokens tspans st"
  shows "spans_inv tokens tspans (build_step tokens tspans st e)"
  unfolding spans_inv_def
proof (intro allI impI)
  fix e' a b
  assume sp: "char_spans (build_step tokens tspans st e) e' = (Some a, Some b)"
  let ?t = "b_text (build_step tokens tspans st e)"
  show "0 \<le> a \<and> a < b \<and> nat b \<le> length ?t \<and> py_slice ?t a b = entity_words tokens tspans e' @ '' ''"
  proof (cases "e' = e")
    case True
    then show ?thesis using build_step_span [of tokens tspans st e] sp by force
  next
    case False
    obtain w where tw: "?t = b_text st @ w" using build_step_text by blast
    from sp False have "char_spans st e' = (Some a, Some b)" by (simp add: build_step_other)
    with inv have "0 \<le> a \<and> a < b \<and> nat b \<le> length (b_text st) \<and>
        py_slice (b_text st) a b = entity_words tokens tspans e' @ '' ''"
      by (simp add: spans_inv_def)
    then show ?thesis using tw by (simp add: py_slice_append_prefix)
  qed
qed

lemma spans_inv_append_text:
  "spans_inv tokens tspans st \<Longrightarrow> spans_inv tokens tspans (st\<lparr>b_text := b_text st @ w\<rparr>)"
  by (fastforce simp: spans_inv_def py_slice_append_prefix)

subsection \<open>The loop\<close>

lemma spans_inv_init: "spans_inv tokens tspans build_init"
  by (simp add: spans_inv_def build_init_def)

lemma spans_inv_loop:
  "spans_inv tokens tspans st \<Longrightarrow> spans_inv tokens tspans (build_loop tokens tspans st es)"
  by (induction es arbitrary: st) (simp_all add: spans_inv_step)

lemma build_loop_set:
  "\<exists>a b. char_spans st e = (Some a, Some b) \<Longrightarrow>
   \<exists>a b. char_spans (build_loop tokens tspans st es) e = (Some a, Some b)"
proof (induction es arbitrary: st)
  case Nil
  then show ?case by simp
next
  case (Cons e' es)
  then show ?case using build_step_set [OF Cons.prems, of tokens tspans e'] by simp
qed

text \<open>Every entity the loop visits has both entries of its span set.\<close>

lemma build_loop_visits:
  "e \<in> set es \<Longrightarrow> \<exists>a b. char_spans (build_loop tokens tspans st es) e = (Some a, Some b)"
proof (induction es arbitrary: st)
  case Nil
  then show ?case by simp
next
  case (Cons e' es)
  show ?case
  proof (cases "e = e'")
    case True
    have "\<exists>a b. char_spans (build_step tokens tspans st e') e = (Some a, Some b)"
      using build_step_span [of tokens tspans st e'] True by blast
    then show ?thesis by (simp add: build_loop_set)
  next
    case False
    then show ?thesis using Cons by simp
  qed
qed

lemma build_loop_two:
  assumes "e1 \<noteq> e2"
  shows "\<exists>a1 b1 a2 b2. char_spans (build_loop tokens tspans st [e1, e2]) e1 = (Some a1, Some b1) \<and>
           char_spans (build_loop tokens tspans st [e1, e2]) e2 = (Some a2, Some b2) \<and> b1 \<le> a2"
proof -
  let ?st1 = "build_step tokens tspans st e1"
  obtain a1 b1 where s1: "char_spans ?st1 e1 = (Some a1, Some b1)" and l1: "nat b1 = length (b_text ?st1)"
    and "a1 < b1"
    using build_step_span [of tokens tspans st e1] by blast
  obtain a2 b2 where s2: "char_spans (build_step tokens tspans ?st1 e2) e2 = (Some a2, Some b2)"
    and l2: "int (length (b_text ?st1)) \<le> a2"
    using build_step_span [of tokens tspans ?st1 e2] by blast
  have "char_spans (build_step tokens tspans ?st1 e2) e1 = (Some a1, Some b1)"
    using s1 assms by (simp add: build_step_other)
  moreover have "b1 \<le> a2" using l1 l2 \<open>a1 < b1\<close> by linarith
  ultimately show ?thesis using s2 by simp
qed

subsection \<open>The whole record\<close>

lemma set_entity_order: "set (entity_order item) = {Subj, Obj}"
  by (auto simp: entity_order_def)

lemma spans_inv_build_text: "spans_inv (token item) (token_spans item) (build_text item)"
  by (simp add: build_text_def Let_def spans_inv_append_text spans_inv_loop spans_inv_init)

lemma build_text_spans:
  "\<exists>a b. char_spans (build_text item) e = (Some a, Some b)"
proof -
  have "e \<in> set (entity_order item)" by (cases e) (simp_all add: set_entity_order)
  then show ?thesis by (simp add: build_text_def Let_def build_loop_visits)
qed

lemma create_example_fields:
  "ex_id (create_example set_type i item) = set_type @ ''-'' @ py_str_nat i \<and>
   ex_label (create_example set_type i item) = relation item \<and>
   type_a (create_example set_type i item) = subj_type item \<and>
   type_b (create_example set_type i item) = obj_type item \<and>
   ex_text (create_example set_type i item) = rstrip (b_text (build_text item)) \<and>
   span_a (create_example set_type i item) = char_spans (build_text item) Subj \<and>
   span_b (create_example set_type i item) = char_spans (build_text item) Obj"
  by (simp add: create_example_def Let_def)

text \<open>An entity's span in the final text, stripped, is its joined tokens, stripped.\<close>

lemma rstrip_final_span:
  assumes "char_spans (build_text item) e = (Some a, Some b)"
  shows "rstrip (py_slice (rstrip (b_text (build_text item))) a b) =
         rstrip (entity_words (token item) (token_spans item) e)"
proof -
  have "0 \<le> a \<and> a < b \<and>
      py_slice (b_text (build_text item)) a b = entity_words (token item) (token_spans item) e @ '' ''"
    using spans_inv_build_text [of item] assms by (simp add: spans_inv_def)
  moreover have "rstrip (x @ '' '') = rstrip x" for x
    by (rule rstrip_append_space) (simp add: py_isspace_def)
  ultimately show ?thesis by (simp add: rstrip_py_slice_rstrip)
qed

lemma create_examples_from:
  "length (map (\<lambda>(i, item). create_example set_type i item) (enumerate n items)) = length items \<and>
   map ex_id (map (\<lambda>(i, item). create_example set_type i item) (enumerate n items)) =
     map (\<lambda>i. set_type @ ''-'' @ py_str_nat i) [n..<n + length items] \<and>
   map ex_label (map (\<lambda>(i, item). create_example set_type i item) (enumerate n items)) = map relation items \<and>
   map type_a (map (\<lambda>(i, item). create_example set_type i item) (enumerate n items)) = map subj_type items \<and>
   map type_b (map (\<lambda>(i, item). create_example set_type i item) (enumerate n items)) = map obj_type items"
proof (induction items arbitrary: n)
  case Nil
  then show ?case by simp
next
  case (Cons item items)
  have "[n..<n + length (item # items)] = n # [Suc n..<Suc n + length items]"
    by (subst upt_conv_Cons) simp_all
  then show ?case using Cons.IH [of "Suc n"] create_example_fields [of set_type n item] by simp
qed

lemma create_examples_fields:
  "length (create_examples set_type items) = length items \<and>
   map ex_id (create_examples set_type items) = map (\<lambda>i. set_type @ ''-'' @ py_str_nat i) [0..<length items] \<and>
   map ex_label (create_examples set_type items) = map relation items \<and>
   map type_a (create_examples set_type items) = map subj_type items \<and>
   map type_b (create_examples set_type items) = map obj_type items"
  using create_examples_from [of set_type 0 items] by (simp add: create_examples_def)

lemma create_example_spans_order:
  "\<exists>a1 b1 a2 b2. span_a (create_example set_type i item) = (Some a1, Some b1) \<and>
     span_b (create_example set_type i item) = (Some a2, Some b2) \<and>
     0 \<le> a1 \<and> a1 < b1 \<and> 0 \<le> a2 \<and> a2 < b2 \<and>
     (if subj_start item < obj_start item then b1 \<le> a2 else b2 \<le> a1)"
proof -
  note f = create_example_fields [of set_type i item]
  obtain a1 b1 where sa: "char_spans (build_text item) Subj = (Some a1, Some b1)"
    using build_text_spans by blast
  obtain a2 b2 where sb: "char_spans (build_text item) Obj = (Some a2, Some b2)"
    using build_text_spans by blast
  have inv: "spans_inv (token item) (token_spans item) (build_text item)"
    by (rule spans_inv_build_text)
  have bounds: "0 \<le> a1 \<and> a1 < b1 \<and> 0 \<le> a2 \<and> a2 < b2"
    using inv sa sb unfolding spans_inv_def by blast
  let ?loop = "build_loop (token item) (token_spans item) build_init (entity_order item)"
  have cs: "char_spans (build_text item) = char_spans ?loop"
    by (simp add: build_text_def Let_def)
  have order: "if subj_start item < obj_start item then b1 \<le> a2 else b2 \<le> a1"
  proof (cases "subj_start item < obj_start item")
    case True
    then have "?loop = build_loop (token item) (token_spans item) build_init [Subj, Obj]"
      by (simp add: entity_order_def token_spans_def)
    then show ?thesis
      using True sa sb cs build_loop_two [of Subj Obj "token item" "token_spans item" build_init] by auto
  next
    case False
    then have "?loop = build_loop (token item) (token_spans item) build_init [Obj, Subj]"
      by (simp add: entity_order_def token_spans_def)
    then show ?thesis
      using False sa sb cs build_loop_two [of Obj Subj "token item" "token_spans item" build_init] by auto
  qed
  show ?thesis using f sa sb bounds order by simp
qed

text \<open>Every example of a split has both span ends set.\<close>

lemma create_examples_ends:
  assumes "ex \<in> set (create_examples set_type items)"
  shows "\<exists>ea eb. snd (span_a ex) = Some ea \<and> snd (span_b ex) = Some eb"
proof -
  obtain i item where "ex = create_example set_type i item"
    using assms by (auto simp: create_examples_def)
  then show ?thesis using create_example_spans_order [of set_type i item] by auto
qed

section \<open>Properties of the example builder\<close>

text \<open>
  C1. For every record, both entries of the subject's span (\<open>span_a\<close>) and of the
  object's span (\<open>span_b\<close>) are set, and each span slices out of the rebuilt text
  exactly the space-joined tokens of that entity, up to trailing whitespace (the span
  ends after a separating space, which the final \<open>rstrip\<close> removes when the entity ends
  the text).
\<close>

theorem create_example_span_text:
  "\<exists>a1 b1 a2 b2. span_a (create_example set_type i item) = (Some a1, Some b1) \<and>
     span_b (create_example set_type i item) = (Some a2, Some b2) \<and>
     rstrip (py_slice (ex_text (create_example set_type i item)) a1 b1) =
       rstrip (py_join '' '' (py_slice (token item) (subj_start item) (subj_end item + 1))) \<and>
     rstrip (py_slice (ex_text (create_example set_type i item)) a2 b2) =
       rstrip (py_join '' '' (py_slice (token item) (obj_start item) (obj_end item + 1)))"
proof -
  note f = create_example_fields [of set_type i item]
  obtain a1 b1 where sa: "char_spans (build_text item) Subj = (Some a1, Some b1)"
    using build_text_spans by blast
  obtain a2 b2 where sb: "char_spans (build_text item) Obj = (Some a2, Some b2)"
    using build_text_spans by blast
  show ?thesis
    using f sa sb rstrip_final_span [OF sa] rstrip_final_span [OF sb]
    by (simp add: entity_words_def token_spans_def)
qed

text \<open>
  C7. The two character spans are non-empty, start at a non-negative offset and do not
  overlap: the entity whose token span starts strictly first (the subject) comes first
  in the text; otherwise, ties included, the object comes first.
\<close>

theorem create_example_spans_ordered:
  "\<exists>a1 b1 a2 b2. span_a (create_example set_type i item) = (Some a1, Some b1) \<and>
     span_b (create_example set_type i item) = (Some a2, Some b2) \<and>
     0 \<le> a1 \<and> a1 < b1 \<and> 0 \<le> a2 \<and> a2 < b2 \<and>
     (if subj_start item < obj_start item then b1 \<le> a2 else b2 \<le> a1)"
  by (rule create_example_spans_order)

text \<open>
  C13. \<open>_create_examples\<close> yields one example per record, in order, carrying the
  record's relation as label, and the ids \<open>set_type-i\<close> are pairwise distinct.
\<close>

theorem create_examples_result:
  "length (create_examples set_type items) = length items \<and>
   map ex_label (create_examples set_type items) = map relation items \<and>
   distinct (map ex_id (create_examples set_type items))"
proof -
  note f = create_examples_fields [of set_type items]
  have "inj_on (\<lambda>i. set_type @ ''-'' @ py_str_nat i) {0..<length items}"
    by (auto intro!: inj_onI dest: py_str_nat_inj)
  then have "distinct (map ex_id (create_examples set_type items))"
    using f by (simp add: distinct_map)
  then show ?thesis using f by blast
qed

end
