(* ===== verification/Builder_Spec.thy ===== *)
theory Builder_Spec
  imports Example_Builder
begin

text \<open>
  What the example builder promises, stated without its loop. For a well-formed
  record (\<open>wf_item\<close>: both entities inside the token list, disjoint and not adjacent,
  no empty token) the text of the example is the tokens joined by single spaces and
  stripped, and an entity's character span runs from the offset of its first token to
  the offset just past the space that follows its last token (\<open>spec_example\<close>).
  \<open>create_example\<close> of \<open>DatasetProcessor._create_examples\<close> refines this
  specification. The loop is related to it one iteration at a time: after the loop
  has consumed the first \<open>k\<close> tokens, its text is \<open>spec_text tokens k\<close>.
\<close>

section \<open>Definitions\<close>

text \<open>The text built once the first \<open>k\<close> tokens are consumed: their join and one
  space, or nothing when \<open>k = 0\<close>.\<close>

definition spec_text :: "py_str list \<Rightarrow> nat \<Rightarrow> py_str" where
  "spec_text tokens k = (if k = 0 then [] else py_join '' '' (take k tokens) @ '' '')"

text \<open>The character offset of token \<open>k\<close> in \<open>' '.join(tokens)\<close>.\<close>

definition char_offset :: "py_str list \<Rightarrow> nat \<Rightarrow> int" where
  "char_offset tokens k = (if k = 0 then 0 else int (length (py_join '' '' (take k tokens))) + 1)"

definition wf_item :: "raw_item \<Rightarrow> bool" where
  "wf_item item =
     (0 \<le> subj_start item \<and> subj_start item \<le> subj_end item \<and>
      0 \<le> obj_start item \<and> obj_start item \<le> obj_end item \<and>
      subj_end item < int (length (token item)) \<and> obj_end item < int (length (token item)) \<and>
      (subj_end item + 1 < obj_start item \<or> obj_end item + 1 < subj_start item) \<and>
      list_all (\<lambda>w. w \<noteq> []) (token item))"

text \<open>The character span of the inclusive token range \<open>[s, e]\<close>.\<close>

definition spec_span :: "py_str list \<Rightarrow> int \<Rightarrow> int \<Rightarrow> int option \<times> int option" where
  "spec_span tokens s e = (Some (char_offset tokens (nat s)), Some (char_offset tokens (nat (e + 1))))"

definition spec_example :: "py_str \<Rightarrow> nat \<Rightarrow> raw_item \<Rightarrow> input_example" where
  "spec_example set_type i item =
     \<lparr>ex_id = set_type @ ''-'' @ py_str_nat i, ex_text = rstrip (py_join '' '' (token item)),
      span_a = spec_span (token item) (subj_start item) (subj_end item),
      span_b = spec_span (token item) (obj_start item) (obj_end item),
      type_a = subj_type item, type_b = obj_type item, ex_label = relation item\<rparr>"

text \<open>The record of the spec's worked example.\<close>

definition sample_item :: raw_item where
  "sample_item =
     \<lparr>token = [''John'', ''lives'', ''in'', ''Paris''], subj_start = 0, subj_end = 0,
      obj_start = 3, obj_end = 3, subj_type = ''PERSON'', obj_type = ''CITY'',
      relation = ''lives_in''\<rparr>"

section \<open>Lemmas\<close>

lemma length_spec_text: "int (length (spec_text tokens k)) = char_offset tokens k"
  by (simp add: char_offset_def spec_text_def)

lemma spec_text_extend:
  assumes "s < t" and "t \<le> length tokens"
  shows "spec_text tokens s @ py_join '' '' (take (t - s) (drop s tokens)) @ '' '' = spec_text tokens t"
proof (cases "s = 0")
  case True
  then show ?thesis using assms by (simp add: spec_text_def)
next
  case False
  have "take t tokens = take s tokens @ take (t - s) (drop s tokens)"
    using assms by (metis le_add_diff_inverse less_imp_le take_add)
  moreover have "take s tokens \<noteq> []" and "take (t - s) (drop s tokens) \<noteq> []"
    using assms False by auto
  ultimately show ?thesis using assms False by (simp add: spec_text_def py_join_append)
qed

text \<open>Lines 75--77: the text before an entity, with the separating space.\<close>

lemma spec_text_gap:
  assumes "c \<le> s" and "c = 0 \<or> c < s" and "s \<le> length tokens" and "list_all (\<lambda>w. w \<noteq> []) tokens"
  shows "(if spec_text tokens c @ py_join '' '' (take (s - c) (drop c tokens)) \<noteq> []
          then (spec_text tokens c @ py_join '' '' (take (s - c) (drop c tokens))) @ '' ''
          else spec_text tokens c @ py_join '' '' (take (s - c) (drop c tokens))) = spec_text tokens s"
proof (cases "s = 0")
  case True
  then show ?thesis using assms by (simp add: spec_text_def)
next
  case False
  have "take s tokens \<noteq> []" using assms(3) False by auto
  moreover have "\<forall>w\<in>set (take s tokens). w \<noteq> []"
    using assms(4) by (auto simp: list_all_iff dest: in_set_takeD)
  ultimately have ne: "py_join '' '' (take s tokens) \<noteq> []"
    using py_join_eq_Nil by blast
  show ?thesis
  proof (cases "c = 0")
    case True
    then show ?thesis using ne False by (simp add: spec_text_def)
  next
    case c: False
    then have "c < s" using assms(2) by simp
    have "take s tokens = take c tokens @ take (s - c) (drop c tokens)"
      using \<open>c < s\<close> by (metis le_add_diff_inverse less_imp_le take_add)
    moreover have "take c tokens \<noteq> []" and "take (s - c) (drop c tokens) \<noteq> []"
      using assms(3) \<open>c < s\<close> c by auto
    ultimately have "spec_text tokens c @ py_join '' '' (take (s - c) (drop c tokens)) = py_join '' '' (take s tokens)"
      using c by (simp add: spec_text_def py_join_append)
    then show ?thesis using ne False by (simp add: spec_text_def)
  qed
qed

text \<open>One iteration refines the specification.\<close>

lemma build_step_refines:
  assumes "tspans e = (int s, int t)" and "c \<le> s" and "c = 0 \<or> c < s" and "s < t"
    and "t \<le> length tokens" and "list_all (\<lambda>w. w \<noteq> []) tokens"
  shows "build_step tokens tspans \<lparr>b_text = spec_text tokens c, b_cur = int c, char_spans = m\<rparr> e =
    \<lparr>b_text = spec_text tokens t, b_cur = int t,
     char_spans = m(e := (Some (char_offset tokens s), Some (char_offset tokens t)))\<rparr>"
proof -
  have gap: "(if spec_text tokens c @ py_join '' '' (take (s - c) (drop c tokens)) \<noteq> []
          then (spec_text tokens c @ py_join '' '' (take (s - c) (drop c tokens))) @ '' ''
          else spec_text tokens c @ py_join '' '' (take (s - c) (drop c tokens))) = spec_text tokens s"
    using assms by (intro spec_text_gap) simp_all
  have ext: "spec_text tokens s @ py_join '' '' (take (t - s) (drop s tokens)) @ '' '' = spec_text tokens t"
    using assms by (intro spec_text_extend) simp_all
  have sl1: "py_slice tokens (int c) (int s) = take (s - c) (drop c tokens)"
    by (simp add: py_slice_nonneg)
  have sl2: "py_slice tokens (int s) (int t) = take (t - s) (drop s tokens)"
    by (simp add: py_slice_nonneg)
  show ?thesis
    by (simp only: build_step_def Let_def assms(1) fst_conv snd_conv sl1 sl2 gap ext
        length_spec_text build_state.select_convs build_state.update_convs)
qed

text \<open>The loop over two entities, the first ending before the second starts, with a
  token in between.\<close>

lemma build_loop_refines:
  assumes "tspans e1 = (int s1, int t1)" and "tspans e2 = (int s2, int t2)"
    and "s1 < t1" and "t1 < s2" and "s2 < t2" and "t2 \<le> length tokens"
    and "list_all (\<lambda>w. w \<noteq> []) tokens"
  shows "build_loop tokens tspans build_init [e1, e2] =
    \<lparr>b_text = spec_text tokens t2, b_cur = int t2,
     char_spans = (\<lambda>e. (None, None))(e1 := (Some (char_offset tokens s1), Some (char_offset tokens t1)),
                   e2 := (Some (char_offset tokens s2), Some (char_offset tokens t2)))\<rparr>"
proof -
  have init: "build_init = \<lparr>b_text = spec_text tokens 0, b_cur = int 0, char_spans = (\<lambda>e. (None, None))\<rparr>"
    by (simp add: build_init_def spec_text_def)
  have st1: "build_step tokens tspans build_init e1 =
      \<lparr>b_text = spec_text tokens t1, b_cur = int t1,
       char_spans = (\<lambda>e. (None, None))(e1 := (Some (char_offset tokens s1), Some (char_offset tokens t1)))\<rparr>"
    unfolding init using assms by (intro build_step_refines) simp_all
  have "build_step tokens tspans
      \<lparr>b_text = spec_text tokens t1, b_cur = int t1,
       char_spans = (\<lambda>e. (None, None))(e1 := (Some (char_offset tokens s1), Some (char_offset tokens t1)))\<rparr> e2 =
      \<lparr>b_text = spec_text tokens t2, b_cur = int t2,
       char_spans = (\<lambda>e. (None, None))(e1 := (Some (char_offset tokens s1), Some (char_offset tokens t1)),
                     e2 := (Some (char_offset tokens s2), Some (char_offset tokens t2)))\<rparr>"
    using assms by (intro build_step_refines) simp_all
  then show ?thesis using st1 by simp
qed

text \<open>Lines 82--83: the trailing tokens and \<open>rstrip\<close> complete the join.\<close>

lemma spec_text_final:
  assumes "0 < t" and "t \<le> length tokens"
  shows "rstrip (spec_text tokens t @ py_join '' '' (drop t tokens)) = rstrip (py_join '' '' tokens)"
proof (cases "t = length tokens")
  case True
  have "\<forall>c\<in>set '' ''. py_isspace c" by (simp add: py_isspace_def)
  then show ?thesis using True assms(1) by (simp add: spec_text_def rstrip_append_space)
next
  case False
  then have "t < length tokens" using assms(2) by simp
  then show ?thesis using assms(1) py_join_take_drop [of t tokens "'' ''"] by (simp add: spec_text_def)
qed

lemma build_text_refines:
  assumes "entity_order item = [e1, e2]" and "e1 \<noteq> e2"
    and "token_spans item e1 = (int s1, int t1)" and "token_spans item e2 = (int s2, int t2)"
    and "s1 < t1" and "t1 < s2" and "s2 < t2" and "t2 \<le> length (token item)"
    and "list_all (\<lambda>w. w \<noteq> []) (token item)"
  shows "rstrip (b_text (build_text item)) = rstrip (py_join '' '' (token item)) \<and>
    char_spans (build_text item) e1 = (Some (char_offset (token item) s1), Some (char_offset (token item) t1)) \<and>
    char_spans (build_text item) e2 = (Some (char_offset (token item) s2), Some (char_offset (token item) t2))"
proof -
  have loop: "build_loop (token item) (token_spans item) build_init (entity_order item) =
    \<lparr>b_text = spec_text (token item) t2, b_cur = int t2,
     char_spans = (\<lambda>e. (None, None))(e1 := (Some (char_offset (token item) s1), Some (char_offset (token item) t1)),
                   e2 := (Some (char_offset (token item) s2), Some (char_offset (token item) t2)))\<rparr>"
    unfolding assms(1) using assms(3-) by (rule build_loop_refines)
  have "rstrip (spec_text (token item) t2 @ py_join '' '' (drop t2 (token item))) =
      rstrip (py_join '' '' (token item))"
    using assms by (intro spec_text_final) simp_all
  then show ?thesis using assms(2) by (simp add: build_text_def loop py_slice_from_nonneg)
qed

text \<open>The slice of the joined tokens at the offsets of a token range.\<close>

lemma spec_span_slice:
  assumes "s < e" and "e \<le> length tokens"
  shows "py_slice (py_join '' '' tokens) (char_offset tokens s) (char_offset tokens e) =
    py_join '' '' (take (e - s) (drop s tokens)) @ (if e < length tokens then '' '' else [])"
proof -
  let ?w = "py_join '' '' (take (e - s) (drop s tokens))"
  have ext: "spec_text tokens s @ ?w @ '' '' = spec_text tokens e"
    using assms by (rule spec_text_extend)
  have whole: "py_join '' '' tokens =
      spec_text tokens s @ ?w @ (if e < length tokens then '' '' @ py_join '' '' (drop e tokens) else [])"
  proof (cases "e < length tokens")
    case True
    have "spec_text tokens e @ py_join '' '' (drop e tokens) = py_join '' '' tokens"
      using True assms(1) py_join_take_drop [of e tokens "'' ''"] by (simp add: spec_text_def)
    then show ?thesis using True ext by (metis append.assoc)
  next
    case False
    moreover have "tokens \<noteq> []" using assms by auto
    ultimately have "spec_text tokens e = py_join '' '' tokens @ '' ''"
      using assms by (simp add: spec_text_def)
    then show ?thesis using False ext by simp
  qed
  have cs: "char_offset tokens s = int (length (spec_text tokens s))"
    by (simp add: length_spec_text)
  have ce: "char_offset tokens e = int (length (spec_text tokens s) + length ?w + 1)"
    using arg_cong [OF ext, of length] by (simp add: length_spec_text [symmetric])
  show ?thesis
    unfolding cs ce py_slice_int by (subst whole) simp
qed

lemma wf_item_bounds:
  assumes "wf_item item"
  shows "nat (subj_start item) < nat (subj_end item + 1) \<and> nat (obj_start item) < nat (obj_end item + 1) \<and>
    nat (subj_end item + 1) \<le> length (token item) \<and> nat (obj_end item + 1) \<le> length (token item) \<and>
    token_spans item Subj = (int (nat (subj_start item)), int (nat (subj_end item + 1))) \<and>
    token_spans item Obj = (int (nat (obj_start item)), int (nat (obj_end item + 1)))"
  using assms by (simp add: wf_item_def token_spans_def nat_le_iff)

lemma create_example_eq_spec:
  assumes "wf_item item"
  shows "create_example set_type i item = spec_example set_type i item"
proof -
  let ?tk = "token item"
  let ?ss = "nat (subj_start item)" and ?st = "nat (subj_end item + 1)"
  let ?os = "nat (obj_start item)" and ?ot = "nat (obj_end item + 1)"
  have b: "?ss < ?st" "?os < ?ot" "?st \<le> length ?tk" "?ot \<le> length ?tk"
    and sp: "token_spans item Subj = (int ?ss, int ?st)" "token_spans item Obj = (int ?os, int ?ot)"
    using wf_item_bounds [OF assms] by simp_all
  have wf: "list_all (\<lambda>w. w \<noteq> []) ?tk"
    and dis: "subj_end item + 1 < obj_start item \<or> obj_end item + 1 < subj_start item"
    and nn: "0 \<le> subj_start item" "0 \<le> obj_start item"
    and le: "subj_start item \<le> subj_end item" "obj_start item \<le> obj_end item"
    using assms by (simp_all add: wf_item_def)
  have r: "rstrip (b_text (build_text item)) = rstrip (py_join '' '' ?tk) \<and>
      char_spans (build_text item) Subj = (Some (char_offset ?tk ?ss), Some (char_offset ?tk ?st)) \<and>
      char_spans (build_text item) Obj = (Some (char_offset ?tk ?os), Some (char_offset ?tk ?ot))"
  proof (cases "subj_start item < obj_start item")
    case True
    then have o: "entity_order item = [Subj, Obj]" by (simp add: entity_order_def token_spans_def)
    have "subj_end item + 1 < obj_start item" using True dis le by linarith
    then have "?st < ?os" using nn le by simp
    then show ?thesis using build_text_refines [OF o _ sp] b wf by simp
  next
    case False
    then have o: "entity_order item = [Obj, Subj]" by (simp add: entity_order_def token_spans_def)
    have "obj_end item + 1 < subj_start item" using False dis le by linarith
    then have "?ot < ?ss" using nn le by simp
    then show ?thesis using build_text_refines [OF o _ sp(2) sp(1)] b wf by auto
  qed
  then show ?thesis
    by (simp add: create_example_def Let_def spec_example_def spec_span_def)
qed

text \<open>When the last character of the text is not whitespace, \<open>rstrip\<close> removes
  nothing and an entity's span slices out its joined tokens and the following space, or
  just the joined tokens when the entity ends the text.\<close>

lemma rstrip_join_nonspace:
  assumes "tokens \<noteq> []" and "last tokens \<noteq> []" and "\<not> py_isspace (last (last tokens))"
  shows "rstrip (py_join '' '' tokens) = py_join '' '' tokens"
  using py_join_last [OF assms(1,2), of "'' ''"] assms(3) by (simp add: rstrip_last_nonspace)

text \<open>Where a span ends: one past the joined text after the last token, inside it
  otherwise.\<close>

lemma char_offset_last:
  "0 < length tokens \<Longrightarrow> char_offset tokens (length tokens) = int (length (py_join '' '' tokens)) + 1"
  by (simp add: char_offset_def)

lemma char_offset_inner:
  assumes "0 < k" and "k < length tokens"
  shows "char_offset tokens k \<le> int (length (py_join '' '' tokens))"
proof -
  have "length (py_join '' '' tokens) =
      length (py_join '' '' (take k tokens)) + 1 + length (py_join '' '' (drop k tokens))"
    using py_join_take_drop [OF assms, of "'' ''"] by (metis length_append length_Cons list.size(3) add.assoc
        add_Suc_right add_0_right Suc_eq_plus1)
  then show ?thesis using assms(1) by (simp add: char_offset_def)
qed

lemma spec_span_text:
  assumes "0 \<le> s" and "s \<le> e" and "e < int (length tokens)" and "last tokens \<noteq> []"
    and "\<not> py_isspace (last (last tokens))"
  shows "py_slice_opt (rstrip (py_join '' '' tokens)) (fst (spec_span tokens s e)) (snd (spec_span tokens s e)) =
    py_join '' '' (py_slice tokens s (e + 1)) @ (if e + 1 < int (length tokens) then '' '' else [])"
proof -
  have ne: "tokens \<noteq> []" using assms(1-3) by auto
  have "rstrip (py_join '' '' tokens) = py_join '' '' tokens"
    using ne assms(4,5) by (rule rstrip_join_nonspace)
  moreover have "nat s < nat (e + 1)" and "nat (e + 1) \<le> length tokens"
    using assms(1-3) by simp_all
  ultimately show ?thesis
    using assms(1,2) by (simp add: spec_span_def spec_span_slice py_slice_nonneg nat_less_iff)
qed

lemma spec_span_end:
  assumes "0 \<le> e" and "e < int (length tokens)"
  shows "\<exists>k. snd (spec_span tokens s e) = Some k \<and>
    (e + 1 = int (length tokens) \<longrightarrow> k = int (length (py_join '' '' tokens)) + 1) \<and>
    (e + 1 < int (length tokens) \<longrightarrow> k \<le> int (length (py_join '' '' tokens)))"
proof -
  have pos: "0 < nat (e + 1)" using assms(1) by simp
  have "nat (e + 1) = length tokens \<Longrightarrow>
      char_offset tokens (nat (e + 1)) = int (length (py_join '' '' tokens)) + 1"
    using pos char_offset_last [of tokens] by simp
  moreover have "nat (e + 1) < length tokens \<Longrightarrow>
      char_offset tokens (nat (e + 1)) \<le> int (length (py_join '' '' tokens))"
    using pos by (rule char_offset_inner)
  ultimately show ?thesis using assms by (simp add: spec_span_def)
qed

text \<open>Adjacent entities (the object starting right after the subject): the loop
  state after both entities.\<close>

lemma build_text_adjacent:
  assumes "0 \<le> subj_start item" and "subj_start item \<le> subj_end item"
    and "obj_start item = subj_end item + 1" and "obj_start item \<le> obj_end item"
    and "obj_end item < int (length (token item))" and "list_all (\<lambda>w. w \<noteq> []) (token item)"
  shows "b_text (build_text item) =
      spec_text (token item) (nat (obj_start item)) @ '' '' @
      py_join '' '' (take (nat (obj_end item + 1) - nat (obj_start item)) (drop (nat (obj_start item)) (token item))) @
      '' '' @ py_join '' '' (drop (nat (obj_end item + 1)) (token item)) \<and>
    fst (char_spans (build_text item) Obj) = Some (char_offset (token item) (nat (obj_start item)) + 1)"
proof -
  let ?tk = "token item"
  define s1 where "s1 = nat (subj_start item)"
  define t1 where "t1 = nat (obj_start item)"
  define t2 where "t2 = nat (obj_end item + 1)"
  have sp: "token_spans item Subj = (int s1, int t1)" "token_spans item Obj = (int t1, int t2)"
    using assms(1-4) by (simp_all add: token_spans_def s1_def t1_def t2_def)
  have b: "s1 < t1" "t1 < t2" "t2 \<le> length ?tk"
    using assms(1-5) by (simp_all add: s1_def t1_def t2_def nat_less_iff)
  have o: "entity_order item = [Subj, Obj]" using sp b by (simp add: entity_order_def)
  have init: "build_init = \<lparr>b_text = spec_text ?tk 0, b_cur = int 0, char_spans = (\<lambda>e. (None, None))\<rparr>"
    by (simp add: build_init_def spec_text_def)
  have st1: "build_step ?tk (token_spans item) build_init Subj =
      \<lparr>b_text = spec_text ?tk t1, b_cur = int t1,
       char_spans = (\<lambda>e. (None, None))(Subj := (Some (char_offset ?tk s1), Some (char_offset ?tk t1)))\<rparr>"
    unfolding init using sp b assms(6) by (intro build_step_refines) simp_all
  have ne: "spec_text ?tk t1 \<noteq> []" using b by (simp add: spec_text_def)
  let ?st = "build_loop ?tk (token_spans item) build_init (entity_order item)"
  have "b_text ?st = spec_text ?tk t1 @ '' '' @ py_join '' '' (take (t2 - t1) (drop t1 ?tk)) @ '' ''"
    and "b_cur ?st = int t2"
    and "fst (char_spans ?st Obj) = Some (int (length (spec_text ?tk t1)) + 1)"
    using st1 ne sp by (simp_all add: o build_step_def Let_def py_slice_int)
  then show ?thesis
    by (simp add: build_text_def Let_def py_slice_from_nonneg length_spec_text t1_def t2_def)
qed

section \<open>Properties\<close>

text \<open>
  C21. \<open>create_example\<close> refines the builder's specification: for a well-formed
  record the example's text is the record's tokens joined by single spaces and stripped,
  and each entity's span runs from the character offset of its first token to one past
  the space after its last token (\<open>spec_example\<close>); id, types and label are copied.
\<close>

theorem create_example_refines:
  assumes "wf_item item"
  shows "create_example set_type i item = spec_example set_type i item"
  using assms by (rule create_example_eq_spec)

theorem create_example_refines_witness:
  "create_example ''train'' 0 sample_item = spec_example ''train'' 0 sample_item \<and>
   spec_example ''train'' 0 sample_item =
     \<lparr>ex_id = ''train-0'', ex_text = ''John lives in Paris'', span_a = (Some 0, Some 5),
      span_b = (Some 14, Some 20), type_a = ''PERSON'', type_b = ''CITY'', ex_label = ''lives_in''\<rparr>"
proof -
  have "wf_item sample_item" by code_simp
  then have "create_example ''train'' 0 sample_item = spec_example ''train'' 0 sample_item"
    by (rule create_example_refines)
  moreover have "spec_example ''train'' 0 sample_item =
     \<lparr>ex_id = ''train-0'', ex_text = ''John lives in Paris'', span_a = (Some 0, Some 5),
      span_b = (Some 14, Some 20), type_a = ''PERSON'', type_b = ''CITY'', ex_label = ''lives_in''\<rparr>"
    by code_simp
  ultimately show ?thesis by blast
qed

text \<open>
  C22. Adjacent entities fall outside the single-space specification: when the object
  starts right after the subject, the slice between them is empty but line 77 still
  appends a space, so for every such record the text has two spaces at the entity
  boundary where \<open>' '.join(tokens)\<close> has one, and the object's span starts one
  character after the offset of its first token in the joined text.
\<close>

theorem create_example_adjacent_entities:
  assumes "0 \<le> subj_start item" and "subj_start item \<le> subj_end item"
    and "obj_start item = subj_end item + 1" and "obj_start item \<le> obj_end item"
    and "obj_end item < int (length (token item))" and "list_all (\<lambda>w. w \<noteq> []) (token item)"
  shows "ex_text (create_example set_type i item) =
      rstrip (py_join '' '' (take (nat (obj_start item)) (token item)) @ ''  '' @
              py_join '' '' (drop (nat (obj_start item)) (token item))) \<and>
    fst (span_b (create_example set_type i item)) = Some (char_offset (token item) (nat (obj_start item)) + 1)"
proof -
  let ?tk = "token item"
  define t1 where "t1 = nat (obj_start item)"
  define t2 where "t2 = nat (obj_end item + 1)"
  have b: "0 < t1" "t1 < t2" "t2 \<le> length ?tk"
    using assms(1-5) by (simp_all add: t1_def t2_def nat_less_iff)
  note bt = build_text_adjacent [OF assms, folded t1_def t2_def]
  have "rstrip (spec_text (drop t1 ?tk) (t2 - t1) @ py_join '' '' (drop (t2 - t1) (drop t1 ?tk))) =
      rstrip (py_join '' '' (drop t1 ?tk))"
    using b by (intro spec_text_final) simp_all
  then have r: "rstrip (py_join '' '' (take (t2 - t1) (drop t1 ?tk)) @ '' '' @ py_join '' '' (drop t2 ?tk)) =
      rstrip (py_join '' '' (drop t1 ?tk))"
    using b by (simp add: spec_text_def)
  have "rstrip (spec_text ?tk t1 @ '' '' @ py_join '' '' (take (t2 - t1) (drop t1 ?tk)) @ '' '' @
        py_join '' '' (drop t2 ?tk)) =
      rstrip ((py_join '' '' (take t1 ?tk) @ ''  '') @ py_join '' '' (drop t1 ?tk))"
    using rstrip_append_cong [OF r, of "py_join '' '' (take t1 ?tk) @ ''  ''"] b
    by (simp add: spec_text_def)
  then show ?thesis using bt by (simp add: create_example_fields t1_def)
qed

theorem create_example_adjacent_entities_witness:
  "ex_text (create_example ''train'' 0
     \<lparr>token = [''John'', ''Smith''], subj_start = 0, subj_end = 0, obj_start = 1, obj_end = 1,
      subj_type = ''PERSON'', obj_type = ''PERSON'', relation = ''no_relation''\<rparr>) = ''John  Smith'' \<and>
   fst (span_b (create_example ''train'' 0
     \<lparr>token = [''John'', ''Smith''], subj_start = 0, subj_end = 0, obj_start = 1, obj_end = 1,
      subj_type = ''PERSON'', obj_type = ''PERSON'', relation = ''no_relation''\<rparr>)) = Some 6"
proof -
  have "ex_text (create_example ''train'' 0
     \<lparr>token = [''John'', ''Smith''], subj_start = 0, subj_end = 0, obj_start = 1, obj_end = 1,
      subj_type = ''PERSON'', obj_type = ''PERSON'', relation = ''no_relation''\<rparr>) =
      rstrip (py_join '' '' (take 1 [''John'', ''Smith'']) @ ''  '' @ py_join '' '' (drop 1 [''John'', ''Smith''])) \<and>
    fst (span_b (create_example ''train'' 0
     \<lparr>token = [''John'', ''Smith''], subj_start = 0, subj_end = 0, obj_start = 1, obj_end = 1,
      subj_type = ''PERSON'', obj_type = ''PERSON'', relation = ''no_relation''\<rparr>)) =
      Some (char_offset [''John'', ''Smith''] 1 + 1)"
    using create_example_adjacent_entities [of "\<lparr>token = [''John'', ''Smith''], subj_start = 0, subj_end = 0,
      obj_start = 1, obj_end = 1, subj_type = ''PERSON'', obj_type = ''PERSON'', relation = ''no_relation''\<rparr>"]
    by simp
  moreover have "rstrip (py_join '' '' (take 1 [''John'', ''Smith'']) @ ''  '' @ py_join '' '' (drop 1 [''John'', ''Smith''])) =
      ''John  Smith''" by code_simp
  moreover have "char_offset [''John'', ''Smith''] 1 + 1 = 6" by (simp add: char_offset_def)
  ultimately show ?thesis by simp
qed

text \<open>
  C27. Where the spans end, for a well-formed record whose text does not end in
  whitespace: both span ends are set; an entity that ends the sentence has its span end
  one past the end of the text (the trailing space it counted was stripped); any other
  entity's span ends inside the text.
\<close>

theorem created_span_ends:
  assumes "wf_item item" and "\<not> py_isspace (last (last (token item)))"
    and "ex = create_example set_type i item"
  shows "\<exists>a b. snd (span_a ex) = Some a \<and> snd (span_b ex) = Some b \<and>
    (subj_end item + 1 = int (length (token item)) \<longrightarrow> a = int (length (ex_text ex)) + 1) \<and>
    (subj_end item + 1 < int (length (token item)) \<longrightarrow> a \<le> int (length (ex_text ex))) \<and>
    (obj_end item + 1 = int (length (token item)) \<longrightarrow> b = int (length (ex_text ex)) + 1) \<and>
    (obj_end item + 1 < int (length (token item)) \<longrightarrow> b \<le> int (length (ex_text ex)))"
proof -
  have ex: "ex = spec_example set_type i item"
    using create_example_eq_spec [OF assms(1)] assms(3) by simp
  have wf: "0 \<le> subj_end item" "subj_end item < int (length (token item))"
    "0 \<le> obj_end item" "obj_end item < int (length (token item))" "list_all (\<lambda>w. w \<noteq> []) (token item)"
    using assms(1) by (auto simp: wf_item_def)
  then have ne: "token item \<noteq> []" by auto
  then have "last (token item) \<noteq> []" using wf(5) by (auto simp: list_all_iff)
  then have "ex_text ex = py_join '' '' (token item)"
    using ne assms(2) by (simp add: ex spec_example_def rstrip_join_nonspace)
  moreover obtain a where "snd (spec_span (token item) (subj_start item) (subj_end item)) = Some a"
    and "subj_end item + 1 = int (length (token item)) \<longrightarrow> a = int (length (py_join '' '' (token item))) + 1"
    and "subj_end item + 1 < int (length (token item)) \<longrightarrow> a \<le> int (length (py_join '' '' (token item)))"
    using spec_span_end [OF wf(1,2), of "subj_start item"] by blast
  moreover obtain b where "snd (spec_span (token item) (obj_start item) (obj_end item)) = Some b"
    and "obj_end item + 1 = int (length (token item)) \<longrightarrow> b = int (length (py_join '' '' (token item))) + 1"
    and "obj_end item + 1 < int (length (token item)) \<longrightarrow> b \<le> int (length (py_join '' '' (token item)))"
    using spec_span_end [OF wf(3,4), of "obj_start item"] by blast
  ultimately show ?thesis by (simp add: ex spec_example_def)
qed

theorem created_span_ends_witness:
  "snd (span_b (create_example ''train'' 0 sample_item)) =
     Some (int (length (ex_text (create_example ''train'' 0 sample_item))) + 1)"
proof -
  have wf: "wf_item sample_item" by code_simp
  have sp: "\<not> py_isspace (last (last (token sample_item)))" by code_simp
  have "obj_end sample_item + 1 = int (length (token sample_item))" by (simp add: sample_item_def)
  then show ?thesis using created_span_ends [OF wf sp refl] by auto
qed

text \<open>
  C29. Token spans past the end of the token list raise nothing: slicing clamps, so the
  text is the stripped join of all tokens, and each entity (subject first) still gets a
  span of one character, the separating space it adds, lying beyond the stripped text.
\<close>

theorem create_example_out_of_range:
  assumes "int (length (token item)) \<le> subj_start item" and "subj_start item < obj_start item"
    and "int (length (token item)) \<le> subj_end item" and "int (length (token item)) \<le> obj_end item"
  shows "ex_text (create_example set_type i item) = rstrip (py_join '' '' (token item)) \<and>
    (let b = (if py_join '' '' (token item) = [] then 0 else int (length (py_join '' '' (token item))) + 1)
     in span_a (create_example set_type i item) = (Some b, Some (b + 1)) \<and>
        span_b (create_example set_type i item) = (Some (b + 2), Some (b + 3)))"
proof -
  let ?tk = "token item" and ?J = "py_join '' '' (token item)"
  have o: "entity_order item = [Subj, Obj]" using assms(2) by (simp add: entity_order_def token_spans_def)
  have sl: "py_slice ?tk 0 (subj_start item) = ?tk" "py_slice ?tk (subj_start item) (subj_end item + 1) = []"
    "py_slice ?tk (subj_end item + 1) (obj_start item) = []" "py_slice ?tk (obj_start item) (obj_end item + 1) = []"
    "py_slice_from ?tk (obj_end item + 1) = []"
    using assms by (simp_all add: py_slice_to_end py_slice_past_end py_slice_from_def)
  have sp: "\<forall>c\<in>set (''  ''). py_isspace c" "\<forall>c\<in>set (''    ''). py_isspace c" by (simp_all add: py_isspace_def)
  show ?thesis
  proof (cases "?J = []")
    case True
    then show ?thesis using sl sp
      by (simp add: create_example_fields build_text_def o build_step_def Let_def token_spans_def
          build_init_def rstrip_def)
  next
    case False
    then show ?thesis using sl sp rstrip_append_space [OF sp(2), of ?J]
      by (simp add: create_example_fields build_text_def o build_step_def Let_def token_spans_def
          build_init_def)
  qed
qed

theorem create_example_out_of_range_witness:
  "span_a (create_example ''dev'' 0
     \<lparr>token = [''John''], subj_start = 1, subj_end = 1, obj_start = 2, obj_end = 3,
      subj_type = ''PERSON'', obj_type = ''CITY'', relation = ''no_relation''\<rparr>) = (Some 5, Some 6) \<and>
   span_b (create_example ''dev'' 0
     \<lparr>token = [''John''], subj_start = 1, subj_end = 1, obj_start = 2, obj_end = 3,
      subj_type = ''PERSON'', obj_type = ''CITY'', relation = ''no_relation''\<rparr>) = (Some 7, Some 8)"
  using create_example_out_of_range [of "\<lparr>token = [''John''], subj_start = 1, subj_end = 1, obj_start = 2,
      obj_end = 3, subj_type = ''PERSON'', obj_type = ''CITY'', relation = ''no_relation''\<rparr>"]
  by simp

end
