(* ===== verification/Labels.thy ===== *)
theory Labels
  imports Example_Builder
begin

text \<open>
  The label vocabulary: \<open>DatasetProcessor.get_label_list\<close> (lines 48--53 of
  \<open>src/examples/relation_classification/utils.py\<close>), which collects the relations of
  the training split, and the dictionary \<open>label_map\<close> that
  \<open>convert_examples_to_features\<close> builds from the vocabulary (line 93). The lemmas
  show that \<open>no_relation\<close> has index 0, that the other labels follow sorted and
  without repetition, and that \<open>label_map\<close> inverts indexing into the vocabulary.
\<close>

section \<open>Definitions\<close>

text \<open>Lines 49--53 once the training examples are built: a set of the labels,
  \<open>no_relation\<close> discarded, then prepended to the sorted rest.\<close>

definition label_list_of :: "input_example list \<Rightarrow> py_str list" where
  "label_list_of train =
     ''no_relation'' # sorted_list_of_set (set (map ex_label train) - {''no_relation''})"

text \<open>\<open>get_label_list\<close>: the labels of \<open>get_train_examples\<close> (line 50).\<close>

definition get_label_list :: "raw_item list \<Rightarrow> py_str list" where
  "get_label_list train_items = label_list_of (get_train_examples train_items)"

text \<open>\<open>label_map = {l: i for i, l in enumerate(label_list)}\<close> (line 93).\<close>

definition label_map :: "py_str list \<Rightarrow> (py_str \<rightharpoonup> int)" where
  "label_map label_list = py_enum_dict 0 label_list"

text \<open>A record with the given relation, for the witnesses.\<close>

definition sample_rel :: "py_str \<Rightarrow> raw_item" where
  "sample_rel r =
     \<lparr>token = [''a'', ''b''], subj_start = 0, subj_end = 0, obj_start = 1, obj_end = 1,
      subj_type = ''PERSON'', obj_type = ''PERSON'', relation = r\<rparr>"

section \<open>Lemmas\<close>

lemma label_list_of_distinct: "distinct (label_list_of train)"
  by (simp add: label_list_of_def)

lemma label_list_of_set: "set (label_list_of train) = insert ''no_relation'' (set (map ex_label train))"
  by (auto simp: label_list_of_def)

lemma label_map_index:
  assumes "distinct ls" and "i < length ls"
  shows "label_map ls (ls ! i) = Some (int i)"
  using assms by (simp add: label_map_def py_enum_dict_nth)

lemma label_map_dom: "dom (label_map ls) = set ls"
  by (simp add: label_map_def dom_py_enum_dict)

lemma label_map_inverse:
  assumes "distinct ls" and "label_map ls l = Some v"
  shows "0 \<le> v \<and> nat v < length ls \<and> ls ! nat v = l"
  using py_enum_dict_inverse [of ls 0 l v] assms by (simp add: label_map_def)

lemma get_label_list_set:
  "distinct (get_label_list train_items) \<and>
   set (get_label_list train_items) = insert ''no_relation'' (set (map relation train_items))"
proof -
  have "set (map ex_label (create_examples ''train'' train_items)) = set (map relation train_items)"
    using create_examples_fields [of "''train''" train_items] by simp
  then show ?thesis
    by (simp add: get_label_list_def get_train_examples_def label_list_of_distinct label_list_of_set
        del: set_map)
qed

section \<open>Properties of the label vocabulary\<close>

text \<open>
  C11. The vocabulary depends only on which relations the training split holds: two
  training splits give the same label list, and so the same label ids, exactly when
  they have the same relations apart from \<open>no_relation\<close>, whatever the order and
  multiplicity of their records.
\<close>

theorem get_label_list_eq_iff:
  "get_label_list xs = get_label_list ys \<longleftrightarrow>
   insert ''no_relation'' (set (map relation xs)) = insert ''no_relation'' (set (map relation ys))"
proof
  assume "get_label_list xs = get_label_list ys"
  then have "set (get_label_list xs) = set (get_label_list ys)" by (rule arg_cong)
  moreover have "set (get_label_list zs) = insert ''no_relation'' (set (map relation zs))" for zs
    using get_label_list_set [of zs] by (rule conjunct2)
  ultimately show "insert ''no_relation'' (set (map relation xs)) = insert ''no_relation'' (set (map relation ys))"
    by (simp only:)
next
  assume h: "insert ''no_relation'' (set (map relation xs)) = insert ''no_relation'' (set (map relation ys))"
  have d: "set (map relation xs) - {''no_relation''} = set (map relation ys) - {''no_relation''}"
    using arg_cong [OF h, of "\<lambda>S. S - {''no_relation''}"] by (simp only: insert_Diff1 [OF singletonI])
  have l: "get_label_list zs =
      ''no_relation'' # sorted_list_of_set (set (map relation zs) - {''no_relation''})" for zs
  proof -
    have "set (map ex_label (create_examples ''train'' zs)) = set (map relation zs)"
      using create_examples_fields [of "''train''" zs] by (simp only: set_map)
    then show ?thesis by (simp only: get_label_list_def get_train_examples_def label_list_of_def)
  qed
  show "get_label_list xs = get_label_list ys" by (simp only: l d)
qed

theorem get_label_list_eq_iff_witness:
  "get_label_list [sample_rel ''lives_in'', sample_rel ''born_in''] =
   get_label_list [sample_rel ''born_in'', sample_rel ''no_relation'', sample_rel ''lives_in'', sample_rel ''born_in'']"
proof -
  have "insert ''no_relation'' (set (map relation [sample_rel ''lives_in'', sample_rel ''born_in''])) =
      insert ''no_relation'' (set (map relation [sample_rel ''born_in'', sample_rel ''no_relation'',
        sample_rel ''lives_in'', sample_rel ''born_in'']))"
    by (simp add: sample_rel_def insert_commute)
  then show ?thesis by (rule get_label_list_eq_iff [THEN iffD2])
qed

text \<open>
  C4. The vocabulary built from any training split has \<open>no_relation\<close> at index 0;
  the labels after it are sorted and no label occurs twice; and it holds exactly
  \<open>no_relation\<close> and the relations of the training records.
\<close>

theorem get_label_list_shape:
  "get_label_list train_items ! 0 = ''no_relation'' \<and> sorted (tl (get_label_list train_items)) \<and>
   distinct (get_label_list train_items) \<and>
   set (get_label_list train_items) = insert ''no_relation'' (set (map relation train_items))"
  using get_label_list_set [of train_items] by (simp add: get_label_list_def label_list_of_def)

text \<open>
  C10. \<open>label_map\<close> of the vocabulary is the inverse of indexing: the label at
  position \<open>i\<close> maps to \<open>i\<close>, and every label the map knows sits at the position it
  maps to; its keys are exactly the labels of the vocabulary.
\<close>

theorem label_map_roundtrip:
  "dom (label_map (get_label_list train_items)) = set (get_label_list train_items) \<and>
   (\<forall>i < length (get_label_list train_items).
      label_map (get_label_list train_items) (get_label_list train_items ! i) = Some (int i)) \<and>
   (\<forall>l v. label_map (get_label_list train_items) l = Some v \<longrightarrow>
      0 \<le> v \<and> nat v < length (get_label_list train_items) \<and> get_label_list train_items ! nat v = l)"
proof -
  have "distinct (get_label_list train_items)" using get_label_list_set by blast
  then show ?thesis by (simp add: label_map_dom label_map_index label_map_inverse)
qed

theorem label_map_roundtrip_witness:
  "get_label_list
     [\<lparr>token = [''John'', ''lives'', ''in'', ''Paris''], subj_start = 0, subj_end = 0,
       obj_start = 3, obj_end = 3, subj_type = ''PERSON'', obj_type = ''CITY'',
       relation = ''lives_in''\<rparr>,
      \<lparr>token = [''He'', ''left''], subj_start = 0, subj_end = 0,
       obj_start = 1, obj_end = 1, subj_type = ''PERSON'', obj_type = ''MISC'',
       relation = ''no_relation''\<rparr>] = [''no_relation'', ''lives_in''] \<and>
   label_map [''no_relation'', ''lives_in''] ''lives_in'' = Some 1"
proof -
  have h: "get_label_list
     [\<lparr>token = [''John'', ''lives'', ''in'', ''Paris''], subj_start = 0, subj_end = 0,
       obj_start = 3, obj_end = 3, subj_type = ''PERSON'', obj_type = ''CITY'',
       relation = ''lives_in''\<rparr>,
      \<lparr>token = [''He'', ''left''], subj_start = 0, subj_end = 0,
       obj_start = 1, obj_end = 1, subj_type = ''PERSON'', obj_type = ''MISC'',
       relation = ''no_relation''\<rparr>] = [''no_relation'', ''lives_in'']"
    by code_simp
  let ?ls = "[''no_relation'', ''lives_in'']"
  have "\<forall>i < length ?ls. label_map ?ls (?ls ! i) = Some (int i)"
    using label_map_roundtrip [of "[\<lparr>token = [''John'', ''lives'', ''in'', ''Paris''], subj_start = 0, subj_end = 0,
       obj_start = 3, obj_end = 3, subj_type = ''PERSON'', obj_type = ''CITY'',
       relation = ''lives_in''\<rparr>,
      \<lparr>token = [''He'', ''left''], subj_start = 0, subj_end = 0,
       obj_start = 1, obj_end = 1, subj_type = ''PERSON'', obj_type = ''MISC'',
       relation = ''no_relation''\<rparr>]"] unfolding h by blast
  then have "label_map ?ls (?ls ! 1) = Some (int 1)"
    by (rule allE [where x = 1]) simp
  then show ?thesis using h by simp
qed

text \<open>
  C24. \<open>label_map\<close> of an arbitrary label list, duplicates allowed (the caller of
  \<open>convert_examples_to_features\<close> passes any list): a label maps to the position of
  its last occurrence, since a later entry of the comprehension overwrites an earlier one.
\<close>

theorem label_map_last_occurrence:
  "label_map ls l = Some v \<longleftrightarrow>
     0 \<le> v \<and> nat v < length ls \<and> ls ! nat v = l \<and> (\<forall>j < length ls. nat v < j \<longrightarrow> ls ! j \<noteq> l)"
  using py_enum_dict_last [of 0 ls l v] by (simp add: label_map_def)

theorem label_map_last_occurrence_witness:
  "label_map [''no_relation'', ''lives_in'', ''no_relation''] ''no_relation'' = Some 2"
proof -
  have "0 \<le> (2::int) \<and> nat 2 < length [''no_relation'', ''lives_in'', ''no_relation''] \<and>
      [''no_relation'', ''lives_in'', ''no_relation''] ! nat 2 = ''no_relation'' \<and>
      (\<forall>j < length [''no_relation'', ''lives_in'', ''no_relation'']. nat 2 < j \<longrightarrow>
         [''no_relation'', ''lives_in'', ''no_relation''] ! j \<noteq> ''no_relation'')"
    by (simp add: nth_Cons')
  then show ?thesis using label_map_last_occurrence by blast
qed

end
