(* ===== verification/Features.thy ===== *)
theory Features
  imports Labels
begin

text \<open>
  The feature encoder, \<open>convert_examples_to_features\<close> (lines 91--158 of
  \<open>src/examples/relation_classification/utils.py\<close>), with the module constants
  \<open>ENTITY_TYPES\<close>, \<open>HEAD_TOKEN\<close>, \<open>TAIL_TOKEN\<close> (lines 7--11) and the record
  \<open>InputFeatures\<close> (lines 25--35). The subword tokenizer is an external library;
  it is the record \<open>tokenizer\<close> of the operations the encoder calls, and every
  lemma holds for any tokenizer (those that need more state it as a hypothesis).
  The loop over the two spans is \<open>enc_loop\<close> over \<open>enc_step\<close>, with the loop
  variables \<open>tokens\<close>, \<open>cur\<close>, \<open>token_spans\<close> as the record \<open>enc_state\<close>.
\<close>

section \<open>Definitions\<close>

definition ENTITY_TYPES :: "py_str list" where
  "ENTITY_TYPES =
     [''CAUSE_OF_DEATH'', ''CITY'', ''COUNTRY'', ''CRIMINAL_CHARGE'', ''DATE'', ''DURATION'',
      ''IDEOLOGY'', ''LOCATION'', ''MISC'', ''NATIONALITY'', ''NUMBER'', ''ORGANIZATION'',
      ''PERSON'', ''RELIGION'', ''STATE_OR_PROVINCE'', ''TITLE'', ''URL'']"

definition HEAD_TOKEN :: py_str where
  "HEAD_TOKEN = ''[HEAD]''"

definition TAIL_TOKEN :: py_str where
  "TAIL_TOKEN = ''[TAIL]''"

text \<open>\<open>InputFeatures\<close>.\<close>

record input_features =
  word_ids :: "int list"
  word_segment_ids :: "int list"
  word_attention_mask :: "int list"
  entity_ids :: "int list"
  entity_position_ids :: "int list list"
  entity_segment_ids :: "int list"
  entity_attention_mask :: "int list"
  label :: int

text \<open>
  The tokenizer's operations used by the encoder: \<open>tokenize(text)\<close> and
  \<open>tokenize(text, add_prefix_space=True)\<close> (the Boolean argument), whether it is a
  \<open>RobertaTokenizer\<close>, its \<open>cls_token\<close> and \<open>sep_token\<close>, and
  \<open>convert_tokens_to_ids\<close>.
\<close>

record tokenizer =
  tok_tokenize :: "py_str \<Rightarrow> bool \<Rightarrow> py_str list"
  tok_is_roberta :: bool
  cls_token :: py_str
  sep_token :: py_str
  convert_tokens_to_ids :: "py_str list \<Rightarrow> int list"

text \<open>The local function \<open>tokenize\<close> (lines 97--101).\<close>

definition tokenize :: "tokenizer \<Rightarrow> py_str \<Rightarrow> py_str list" where
  "tokenize tk text =
     (if tok_is_roberta tk then tok_tokenize tk text True else tok_tokenize tk text False)"

text \<open>\<open>type_map = {t: i + 1 for i, t in enumerate(ENTITY_TYPES)}\<close> (line 95).\<close>

definition type_map :: "py_str \<rightharpoonup> int" where
  "type_map = py_enum_dict 1 ENTITY_TYPES"

text \<open>The attribute names \<open>'span_a'\<close> and \<open>'span_b'\<close> that the loop iterates over.\<close>

datatype span_name = Span_a | Span_b

definition get_span :: "input_example \<Rightarrow> span_name \<Rightarrow> int option \<times> int option" where
  "get_span ex n = (case n of Span_a \<Rightarrow> span_a ex | Span_b \<Rightarrow> span_b ex)"

definition span_key :: "span_name \<Rightarrow> py_str" where
  "span_key n = (case n of Span_a \<Rightarrow> ''span_a'' | Span_b \<Rightarrow> ''span_b'')"

text \<open>Lines 118 and 121: the marker of a span.\<close>

definition marker_token :: "span_name \<Rightarrow> py_str" where
  "marker_token n = (if n = Span_a then HEAD_TOKEN else TAIL_TOKEN)"

text \<open>Lines 105--108: the span that ends first goes first; comparing an end that is
  still \<open>None\<close> raises \<open>TypeError\<close>.\<close>

definition span_order :: "input_example \<Rightarrow> span_name list py_result" where
  "span_order ex =
     (case (snd (span_a ex), snd (span_b ex)) of
        (Some ea, Some eb) \<Rightarrow> Inr (if ea < eb then [Span_a, Span_b] else [Span_b, Span_a])
      | _ \<Rightarrow> Inl (TypeError ''<''))"

record enc_state =
  e_tokens :: "py_str list"
  e_cur :: "int option"
  e_token_spans :: "span_name \<rightharpoonup> nat \<times> nat"

text \<open>One iteration of the loop body, lines 114--123.\<close>

definition enc_step ::
  "tokenizer \<Rightarrow> bool \<Rightarrow> input_example \<Rightarrow> enc_state \<Rightarrow> span_name \<Rightarrow> enc_state" where
  "enc_step tk use_marker_token ex st n =
     (let span = get_span ex n;
          t1 = e_tokens st @ tokenize tk (py_slice_opt (ex_text ex) (e_cur st) (fst span));
          start = length t1;
          t2 = (if use_marker_token then t1 @ [marker_token n] else t1);
          t3 = t2 @ tokenize tk (py_slice_opt (ex_text ex) (fst span) (snd span));
          t4 = (if use_marker_token then t3 @ [marker_token n] else t3)
      in st\<lparr>e_tokens := t4, e_cur := snd span,
            e_token_spans := (e_token_spans st)(n \<mapsto> (start, length t4))\<rparr>)"

fun enc_loop ::
  "tokenizer \<Rightarrow> bool \<Rightarrow> input_example \<Rightarrow> enc_state \<Rightarrow> span_name list \<Rightarrow> enc_state" where
  "enc_loop tk um ex st [] = st"
| "enc_loop tk um ex st (n # ns) = enc_loop tk um ex (enc_step tk um ex st n) ns"

text \<open>Lines 110--126: the token sequence of an example and its token spans, for the
  span order of lines 105--108.\<close>

definition encode_tokens ::
  "tokenizer \<Rightarrow> bool \<Rightarrow> input_example \<Rightarrow> span_name list \<Rightarrow>
   py_str list \<times> (span_name \<rightharpoonup> nat \<times> nat)" where
  "encode_tokens tk use_marker_token ex order =
     (let st = enc_loop tk use_marker_token ex
                 \<lparr>e_tokens = [cls_token tk], e_cur = Some 0, e_token_spans = Map.empty\<rparr> order
      in (e_tokens st @ tokenize tk (py_slice_opt (ex_text ex) (e_cur st) None) @ [sep_token tk],
          e_token_spans st))"

text \<open>Lines 140--141: the positions of a token span, cut and padded to
  \<open>max_mention_length\<close>.\<close>

definition position_ids :: "int \<Rightarrow> nat \<times> nat \<Rightarrow> int list" where
  "position_ids max_mention_length span =
     py_slice (map int [fst span..<snd span]) 0 max_mention_length @
     replicate (nat (max_mention_length - int (snd span) + int (fst span))) (-1)"

text \<open>Lines 132--135.\<close>

definition encode_entity_ids :: "bool \<Rightarrow> input_example \<Rightarrow> int list py_result" where
  "encode_entity_ids use_entity_type_token ex =
     (if use_entity_type_token then
        (case py_getitem type_map (type_a ex) of
          Inl err \<Rightarrow> Inl err
        | Inr a \<Rightarrow> (case py_getitem type_map (type_b ex) of
                     Inl err \<Rightarrow> Inl err
                   | Inr b \<Rightarrow> Inr [a, b]))
      else Inr [1, 1])"

text \<open>Lines 137--142: \<open>token_spans[span_name]\<close> for \<open>span_a\<close>, then \<open>span_b\<close>.\<close>

definition encode_position_ids ::
  "int \<Rightarrow> (span_name \<rightharpoonup> nat \<times> nat) \<Rightarrow> int list list py_result" where
  "encode_position_ids max_mention_length spans =
     (case spans Span_a of
        None \<Rightarrow> Inl (KeyError (span_key Span_a))
      | Some sa \<Rightarrow> (case spans Span_b of
          None \<Rightarrow> Inl (KeyError (span_key Span_b))
        | Some sb \<Rightarrow> Inr [position_ids max_mention_length sa, position_ids max_mention_length sb]))"

text \<open>The body of the loop over the examples, lines 105--156, in the order in which
  Python evaluates it: tokens, entity ids, position ids, then the label.\<close>

definition convert_example ::
  "tokenizer \<Rightarrow> py_str list \<Rightarrow> int \<Rightarrow> bool \<Rightarrow> bool \<Rightarrow> input_example \<Rightarrow> input_features py_result" where
  "convert_example tk label_list max_mention_length use_entity_type_token use_marker_token ex =
     (case span_order ex of
        Inl err \<Rightarrow> Inl err
      | Inr order \<Rightarrow>
     (let (tokens, spans) = encode_tokens tk use_marker_token ex order
      in case encode_entity_ids use_entity_type_token ex of
           Inl err \<Rightarrow> Inl err
         | Inr eids \<Rightarrow> (case encode_position_ids max_mention_length spans of
             Inl err \<Rightarrow> Inl err
           | Inr pids \<Rightarrow> (case py_getitem (label_map label_list) (ex_label ex) of
               Inl err \<Rightarrow> Inl err
             | Inr l \<Rightarrow> Inr \<lparr>word_ids = convert_tokens_to_ids tk tokens,
                             word_segment_ids = replicate (length tokens) 0,
                             word_attention_mask = replicate (length tokens) 1,
                             entity_ids = eids, entity_position_ids = pids,
                             entity_segment_ids = [0, 0], entity_attention_mask = [1, 1],
                             label = l\<rparr>))))"

text \<open>\<open>convert_examples_to_features\<close>: the examples in order; the first exception
  ends the conversion.\<close>

fun convert_examples_to_features ::
  "tokenizer \<Rightarrow> py_str list \<Rightarrow> int \<Rightarrow> bool \<Rightarrow> bool \<Rightarrow> input_example list \<Rightarrow>
   input_features list py_result" where
  "convert_examples_to_features tk ll m ut um [] = Inr []"
| "convert_examples_to_features tk ll m ut um (ex # exs) =
     (case convert_example tk ll m ut um ex of
        Inl err \<Rightarrow> Inl err
      | Inr f \<Rightarrow> (case convert_examples_to_features tk ll m ut um exs of
          Inl err \<Rightarrow> Inl err
        | Inr fs \<Rightarrow> Inr (f # fs)))"

text \<open>The tokens the encoder emits for one span: its markers, if any, around the
  tokenized span text.\<close>

definition marker_seg :: "bool \<Rightarrow> span_name \<Rightarrow> py_str list" where
  "marker_seg use_marker_token n = (if use_marker_token then [marker_token n] else [])"

definition span_segment :: "tokenizer \<Rightarrow> bool \<Rightarrow> input_example \<Rightarrow> span_name \<Rightarrow> py_str list" where
  "span_segment tk um ex n =
     marker_seg um n @ tokenize tk (py_slice_opt (ex_text ex) (fst (get_span ex n)) (snd (get_span ex n))) @
     marker_seg um n"

definition enc_inv :: "tokenizer \<Rightarrow> bool \<Rightarrow> input_example \<Rightarrow> enc_state \<Rightarrow> bool" where
  "enc_inv tk um ex st =
     (\<forall>n s e. e_token_spans st n = Some (s, e) \<longrightarrow>
        0 < s \<and> s \<le> e \<and> e \<le> length (e_tokens st) \<and>
        take (e - s) (drop s (e_tokens st)) = span_segment tk um ex n)"

text \<open>A sample tokenizer (one token per non-space character, ids by token length) and
  a sample example, the inputs at which the witnesses below evaluate the encoder.\<close>

definition sample_tokenizer :: tokenizer where
  "sample_tokenizer =
     \<lparr>tok_tokenize = (\<lambda>s b. map (\<lambda>c. [c]) (filter (\<lambda>c. c \<noteq> CHR '' '') s)),
      tok_is_roberta = False, cls_token = ''<s>'', sep_token = ''</s>'',
      convert_tokens_to_ids = map (\<lambda>t. int (length t))\<rparr>"

definition sample_example :: input_example where
  "sample_example =
     \<lparr>ex_id = ''train-0'', ex_text = ''John lives in Paris'', span_a = (Some 0, Some 5),
      span_b = (Some 14, Some 20),
      type_a = ''PERSON'', type_b = ''CITY'', ex_label = ''lives_in''\<rparr>"

section \<open>Lemmas\<close>

subsection \<open>The token loop\<close>

lemma enc_step_eq:
  "enc_step tk um ex st n =
     (let pre = e_tokens st @ tokenize tk (py_slice_opt (ex_text ex) (e_cur st) (fst (get_span ex n)))
      in st\<lparr>e_tokens := pre @ span_segment tk um ex n, e_cur := snd (get_span ex n),
            e_token_spans := (e_token_spans st)(n \<mapsto> (length pre, length (pre @ span_segment tk um ex n)))\<rparr>)"
  by (simp add: enc_step_def span_segment_def marker_seg_def Let_def add.assoc)

lemma enc_inv_step:
  assumes inv: "enc_inv tk um ex st" and ne: "e_tokens st \<noteq> []"
  shows "enc_inv tk um ex (enc_step tk um ex st n)"
  unfolding enc_inv_def
proof (intro allI impI)
  fix n' s e
  define pre where "pre = e_tokens st @ tokenize tk (py_slice_opt (ex_text ex) (e_cur st) (fst (get_span ex n)))"
  have st': "enc_step tk um ex st n =
      st\<lparr>e_tokens := pre @ span_segment tk um ex n, e_cur := snd (get_span ex n),
         e_token_spans := (e_token_spans st)(n \<mapsto> (length pre, length (pre @ span_segment tk um ex n)))\<rparr>"
    by (simp add: enc_step_eq pre_def Let_def add.assoc)
  assume sp: "e_token_spans (enc_step tk um ex st n) n' = Some (s, e)"
  show "0 < s \<and> s \<le> e \<and> e \<le> length (e_tokens (enc_step tk um ex st n)) \<and>
      take (e - s) (drop s (e_tokens (enc_step tk um ex st n))) = span_segment tk um ex n'"
  proof (cases "n' = n")
    case True
    have "0 < length pre" using ne by (simp add: pre_def)
    then show ?thesis using sp True by (auto simp: st')
  next
    case False
    then have "e_token_spans st n' = Some (s, e)" using sp by (simp add: st')
    then have "0 < s \<and> s \<le> e \<and> e \<le> length (e_tokens st) \<and>
        take (e - s) (drop s (e_tokens st)) = span_segment tk um ex n'"
      using inv by (simp add: enc_inv_def)
    then show ?thesis by (simp add: st' pre_def)
  qed
qed

lemma enc_step_tokens_ne: "e_tokens st \<noteq> [] \<Longrightarrow> e_tokens (enc_step tk um ex st n) \<noteq> []"
  by (simp add: enc_step_eq Let_def)

lemma enc_inv_loop:
  "enc_inv tk um ex st \<Longrightarrow> e_tokens st \<noteq> [] \<Longrightarrow>
     enc_inv tk um ex (enc_loop tk um ex st ns) \<and> e_tokens (enc_loop tk um ex st ns) \<noteq> []"
  by (induction ns arbitrary: st) (simp_all add: enc_inv_step enc_step_tokens_ne)

lemma enc_loop_tokens_prefix:
  "\<exists>w. e_tokens (enc_loop tk um ex st ns) = e_tokens st @ w"
proof (induction ns arbitrary: st)
  case Nil
  then show ?case by simp
next
  case (Cons n ns)
  obtain w where "e_tokens (enc_loop tk um ex (enc_step tk um ex st n) ns) = e_tokens (enc_step tk um ex st n) @ w"
    using Cons.IH by blast
  then show ?case by (simp add: enc_step_eq Let_def)
qed

lemma dom_enc_loop:
  "dom (e_token_spans (enc_loop tk um ex st ns)) = dom (e_token_spans st) \<union> set ns"
  by (induction ns arbitrary: st) (auto simp: enc_step_eq Let_def)

lemma set_span_order: "span_order ex = Inr ns \<Longrightarrow> set ns = {Span_a, Span_b}"
  by (auto simp: span_order_def split: option.splits if_splits)

text \<open>With both span ends set, line 105 compares them and raises nothing.\<close>

lemma span_order_ends:
  "snd (span_a ex) = Some ea \<Longrightarrow> snd (span_b ex) = Some eb \<Longrightarrow>
   span_order ex = Inr (if ea < eb then [Span_a, Span_b] else [Span_b, Span_a])"
  by (simp add: span_order_def)

text \<open>The token spans of the whole sequence: both spans are recorded, each after the
  classification token and before the separator, and each delimits the span's segment.\<close>

lemma encode_tokens_segment:
  assumes "n \<in> set ns"
  shows "\<exists>s e. snd (encode_tokens tk um ex ns) n = Some (s, e) \<and> 0 < s \<and> s \<le> e \<and>
     e < length (fst (encode_tokens tk um ex ns)) \<and>
     take (e - s) (drop s (fst (encode_tokens tk um ex ns))) = span_segment tk um ex n"
proof -
  let ?init = "\<lparr>e_tokens = [cls_token tk], e_cur = Some 0, e_token_spans = Map.empty\<rparr> :: enc_state"
  let ?st = "enc_loop tk um ex ?init ns"
  have i0: "enc_inv tk um ex ?init" by (simp add: enc_inv_def)
  have ne0: "e_tokens ?init \<noteq> []" by simp
  have inv: "enc_inv tk um ex ?st"
    using enc_inv_loop [OF i0 ne0] by blast
  have "n \<in> dom (e_token_spans ?st)"
    using assms by (simp add: dom_enc_loop)
  then obtain s e where sp: "e_token_spans ?st n = Some (s, e)" by auto
  with inv have "0 < s \<and> s \<le> e \<and> e \<le> length (e_tokens ?st) \<and>
      take (e - s) (drop s (e_tokens ?st)) = span_segment tk um ex n"
    unfolding enc_inv_def by blast
  then show ?thesis using sp by (simp add: encode_tokens_def Let_def)
qed

subsection \<open>Position ids\<close>

lemma position_ids_eq:
  assumes "s \<le> e" and "0 \<le> m"
  shows "position_ids m (s, e) =
    map int [s..<s + min (e - s) (nat m)] @ replicate (nat m - min (e - s) (nat m)) (-1)"
proof -
  have "py_slice (map int [s..<e]) 0 m = map int (take (nat m) [s..<e])"
    using assms by (simp add: py_slice_nonneg take_map)
  also have "take (nat m) [s..<e] = [s..<s + min (e - s) (nat m)]"
    using assms(1) by (simp add: take_upt min_def)
  finally have "py_slice (map int [s..<e]) 0 m = map int [s..<s + min (e - s) (nat m)]" .
  moreover have "nat (m - int e + int s) = nat m - min (e - s) (nat m)"
    using assms by (simp add: min_def) linarith
  ultimately show ?thesis by (simp add: position_ids_def)
qed

lemma map_nth_upt: "s + k \<le> length xs \<Longrightarrow> map (\<lambda>i. xs ! i) [s..<s + k] = take k (drop s xs)"
  by (rule nth_equalityI) auto

lemma position_ids_select:
  assumes "s \<le> e" and "e \<le> length toks" and "0 \<le> m"
  shows "map (\<lambda>p. toks ! nat p) (filter (\<lambda>p. 0 \<le> p) (position_ids m (s, e))) =
         take (nat m) (take (e - s) (drop s toks))"
proof -
  let ?k = "min (e - s) (nat m)"
  have "filter (\<lambda>p. 0 \<le> p) (position_ids m (s, e)) = map int [s..<s + ?k]"
    using assms by (simp add: position_ids_eq filter_replicate)
  moreover have "map (\<lambda>p. toks ! nat p) (map int [s..<s + ?k]) = take ?k (drop s toks)"
    using assms by (simp add: comp_def map_nth_upt)
  ultimately show ?thesis by (simp add: min.commute)
qed

lemma nth_of_take_drop:
  "take k (drop s xs) = ys \<Longrightarrow> s + k \<le> length xs \<Longrightarrow> i < k \<Longrightarrow> xs ! (s + i) = ys ! i"
  by auto

subsection \<open>The conversion of one example\<close>

lemma type_map_dom: "dom type_map = set ENTITY_TYPES"
  by (simp add: type_map_def dom_py_enum_dict)

lemma distinct_ENTITY_TYPES: "distinct ENTITY_TYPES"
  by (simp add: ENTITY_TYPES_def)

lemma length_ENTITY_TYPES: "length ENTITY_TYPES = 17"
  by (simp add: ENTITY_TYPES_def)

lemma type_map_inverse:
  "type_map t = Some v \<Longrightarrow> 1 \<le> v \<and> v \<le> 17 \<and> ENTITY_TYPES ! nat (v - 1) = t"
  using py_enum_dict_inverse [OF distinct_ENTITY_TYPES, of 1 t v]
  by (auto simp: type_map_def length_ENTITY_TYPES)

lemma encode_entity_ids_cases:
  "encode_entity_ids ut ex =
     (if ut then
        (if type_a ex \<notin> set ENTITY_TYPES then Inl (KeyError (type_a ex))
         else if type_b ex \<notin> set ENTITY_TYPES then Inl (KeyError (type_b ex))
         else Inr [the (type_map (type_a ex)), the (type_map (type_b ex))])
      else Inr [1, 1])"
  using type_map_dom
  by (auto simp: encode_entity_ids_def py_getitem_def split: option.splits)

lemma encode_position_ids_Inr:
  assumes "set ns = {Span_a, Span_b}"
  shows "encode_position_ids m (snd (encode_tokens tk um ex ns)) =
     Inr [position_ids m (the (snd (encode_tokens tk um ex ns) Span_a)),
          position_ids m (the (snd (encode_tokens tk um ex ns) Span_b))]"
  using encode_tokens_segment [of Span_a ns tk um ex] encode_tokens_segment [of Span_b ns tk um ex] assms
  by (auto simp: encode_position_ids_def)

text \<open>Line 105 comes first: an end that is \<open>None\<close> stops the conversion there.\<close>

lemma convert_example_order_error:
  "span_order ex = Inl err \<Longrightarrow> convert_example tk ll m ut um ex = Inl err"
  by (simp add: convert_example_def)

lemma convert_example_eq:
  assumes "span_order ex = Inr ns"
  shows "convert_example tk ll m ut um ex =
     (case encode_entity_ids ut ex of
        Inl err \<Rightarrow> Inl err
      | Inr eids \<Rightarrow> (case label_map ll (ex_label ex) of
          None \<Rightarrow> Inl (KeyError (ex_label ex))
        | Some l \<Rightarrow> Inr \<lparr>word_ids = convert_tokens_to_ids tk (fst (encode_tokens tk um ex ns)),
                        word_segment_ids = replicate (length (fst (encode_tokens tk um ex ns))) 0,
                        word_attention_mask = replicate (length (fst (encode_tokens tk um ex ns))) 1,
                        entity_ids = eids,
                        entity_position_ids =
                          [position_ids m (the (snd (encode_tokens tk um ex ns) Span_a)),
                           position_ids m (the (snd (encode_tokens tk um ex ns) Span_b))],
                        entity_segment_ids = [0, 0], entity_attention_mask = [1, 1],
                        label = l\<rparr>))"
  using encode_position_ids_Inr [OF set_span_order [OF assms], of m tk um ex] assms
  by (auto simp: convert_example_def py_getitem_def split: prod.splits sum.splits option.splits)

lemma convert_example_Inr:
  assumes "convert_example tk ll m ut um ex = Inr f"
  shows "\<exists>ns. span_order ex = Inr ns \<and> encode_entity_ids ut ex = Inr (entity_ids f) \<and>
    label_map ll (ex_label ex) = Some (label f) \<and>
    word_ids f = convert_tokens_to_ids tk (fst (encode_tokens tk um ex ns)) \<and>
    word_segment_ids f = replicate (length (fst (encode_tokens tk um ex ns))) 0 \<and>
    word_attention_mask f = replicate (length (fst (encode_tokens tk um ex ns))) 1 \<and>
    entity_position_ids f = [position_ids m (the (snd (encode_tokens tk um ex ns) Span_a)),
                             position_ids m (the (snd (encode_tokens tk um ex ns) Span_b))]"
proof -
  obtain ns where ns: "span_order ex = Inr ns"
    using assms by (cases "span_order ex") (auto simp: convert_example_order_error)
  then show ?thesis
    using assms by (auto simp: convert_example_eq [OF ns] split: sum.splits option.splits)
qed

lemma convert_examples_to_features_all:
  "(\<forall>ex\<in>set exs. \<exists>f. convert_example tk ll m ut um ex = Inr f) \<Longrightarrow>
   \<exists>fs. convert_examples_to_features tk ll m ut um exs = Inr fs \<and>
     list_all2 (\<lambda>ex f. convert_example tk ll m ut um ex = Inr f) exs fs"
  by (induction exs) auto

text \<open>What a successful conversion is made of: the span order, both token ranges
  with their segments, and the word and position arrays over the token sequence.\<close>

lemma convert_example_Inr_spans:
  assumes "convert_example tk ll m ut um ex = Inr f"
  shows "\<exists>ns sa ea sb eb. span_order ex = Inr ns \<and>
    snd (encode_tokens tk um ex ns) Span_a = Some (sa, ea) \<and> 0 < sa \<and> sa \<le> ea \<and>
    ea < length (fst (encode_tokens tk um ex ns)) \<and>
    take (ea - sa) (drop sa (fst (encode_tokens tk um ex ns))) = span_segment tk um ex Span_a \<and>
    snd (encode_tokens tk um ex ns) Span_b = Some (sb, eb) \<and> 0 < sb \<and> sb \<le> eb \<and>
    eb < length (fst (encode_tokens tk um ex ns)) \<and>
    take (eb - sb) (drop sb (fst (encode_tokens tk um ex ns))) = span_segment tk um ex Span_b \<and>
    entity_position_ids f = [position_ids m (sa, ea), position_ids m (sb, eb)] \<and>
    word_ids f = convert_tokens_to_ids tk (fst (encode_tokens tk um ex ns)) \<and>
    word_segment_ids f = replicate (length (fst (encode_tokens tk um ex ns))) 0 \<and>
    word_attention_mask f = replicate (length (fst (encode_tokens tk um ex ns))) 1"
proof -
  obtain ns where ns: "span_order ex = Inr ns"
    and f: "word_ids f = convert_tokens_to_ids tk (fst (encode_tokens tk um ex ns))"
      "word_segment_ids f = replicate (length (fst (encode_tokens tk um ex ns))) 0"
      "word_attention_mask f = replicate (length (fst (encode_tokens tk um ex ns))) 1"
      "entity_position_ids f = [position_ids m (the (snd (encode_tokens tk um ex ns) Span_a)),
                               position_ids m (the (snd (encode_tokens tk um ex ns) Span_b))]"
    using convert_example_Inr [OF assms] by blast
  have set: "Span_a \<in> set ns" "Span_b \<in> set ns" using set_span_order [OF ns] by simp_all
  obtain sa ea where a: "snd (encode_tokens tk um ex ns) Span_a = Some (sa, ea)" "0 < sa" "sa \<le> ea"
    "ea < length (fst (encode_tokens tk um ex ns))"
    "take (ea - sa) (drop sa (fst (encode_tokens tk um ex ns))) = span_segment tk um ex Span_a"
    using encode_tokens_segment [OF set(1)] by blast
  obtain sb eb where b: "snd (encode_tokens tk um ex ns) Span_b = Some (sb, eb)" "0 < sb" "sb \<le> eb"
    "eb < length (fst (encode_tokens tk um ex ns))"
    "take (eb - sb) (drop sb (fst (encode_tokens tk um ex ns))) = span_segment tk um ex Span_b"
    using encode_tokens_segment [OF set(2)] by blast
  show ?thesis using ns f a b by simp
qed

section \<open>Properties of the feature encoder\<close>

text \<open>
  C2. The entity position ids point at the entity: for each of the two entities, the
  tokens at its non-padding positions are the first \<open>max_mention_length\<close> tokens of
  its segment, that is of the tokenized span text, with the span's marker token on both
  sides when markers are used.
\<close>

theorem entity_positions_select_entity:
  assumes "convert_example tk ll m ut um ex = Inr f" and "span_order ex = Inr ns" and "0 \<le> m"
  shows "map (\<lambda>p. fst (encode_tokens tk um ex ns) ! nat p) (filter (\<lambda>p. 0 \<le> p) (entity_position_ids f ! 0)) =
           take (nat m) (span_segment tk um ex Span_a) \<and>
         map (\<lambda>p. fst (encode_tokens tk um ex ns) ! nat p) (filter (\<lambda>p. 0 \<le> p) (entity_position_ids f ! 1)) =
           take (nat m) (span_segment tk um ex Span_b)"
proof -
  obtain sa ea sb eb where
    a: "snd (encode_tokens tk um ex ns) Span_a = Some (sa, ea)" "sa \<le> ea"
       "ea < length (fst (encode_tokens tk um ex ns))"
       "take (ea - sa) (drop sa (fst (encode_tokens tk um ex ns))) = span_segment tk um ex Span_a"
    and b: "snd (encode_tokens tk um ex ns) Span_b = Some (sb, eb)" "sb \<le> eb"
       "eb < length (fst (encode_tokens tk um ex ns))"
       "take (eb - sb) (drop sb (fst (encode_tokens tk um ex ns))) = span_segment tk um ex Span_b"
    and pids: "entity_position_ids f = [position_ids m (sa, ea), position_ids m (sb, eb)]"
    using convert_example_Inr_spans [OF assms(1)] assms(2) by auto
  show ?thesis
    using position_ids_select [of sa ea "fst (encode_tokens tk um ex ns)" m]
      position_ids_select [of sb eb "fst (encode_tokens tk um ex ns)" m] a b assms(3)
    by (simp add: pids)
qed

theorem entity_positions_select_entity_witness:
  "convert_example sample_tokenizer [''no_relation'', ''lives_in''] 3 True True sample_example =
     Inr \<lparr>word_ids = [3, 6, 1, 1, 1, 1, 6, 1, 1, 1, 1, 1, 1, 1, 6, 1, 1, 1, 1, 1, 6, 4],
          word_segment_ids = replicate 22 0, word_attention_mask = replicate 22 1,
          entity_ids = [13, 2], entity_position_ids = [[1, 2, 3], [14, 15, 16]],
          entity_segment_ids = [0, 0], entity_attention_mask = [1, 1], label = 1\<rparr> \<and>
   take 3 (span_segment sample_tokenizer True sample_example Span_a) = [''[HEAD]'', ''J'', ''o'']"
proof -
  have c: "convert_example sample_tokenizer [''no_relation'', ''lives_in''] 3 True True sample_example =
     Inr \<lparr>word_ids = [3, 6, 1, 1, 1, 1, 6, 1, 1, 1, 1, 1, 1, 1, 6, 1, 1, 1, 1, 1, 6, 4],
          word_segment_ids = replicate 22 0, word_attention_mask = replicate 22 1,
          entity_ids = [13, 2], entity_position_ids = [[1, 2, 3], [14, 15, 16]],
          entity_segment_ids = [0, 0], entity_attention_mask = [1, 1], label = 1\<rparr>"
    by code_simp
  have o: "span_order sample_example = Inr [Span_a, Span_b]" by (simp add: sample_example_def span_order_def)
  have "map (\<lambda>p. fst (encode_tokens sample_tokenizer True sample_example [Span_a, Span_b]) ! nat p)
        (filter (\<lambda>p. 0 \<le> p) [1, 2, 3]) =
        take (nat 3) (span_segment sample_tokenizer True sample_example Span_a)"
    using entity_positions_select_entity [OF c o] by simp
  moreover have "map (\<lambda>p. fst (encode_tokens sample_tokenizer True sample_example [Span_a, Span_b]) ! nat p)
        (filter (\<lambda>p. 0 \<le> p) [1, 2, 3]) = [''[HEAD]'', ''J'', ''o'']"
    by code_simp
  ultimately show ?thesis using c by simp
qed

text \<open>
  C3. Each example has two position-id arrays, and for \<open>max_mention_length \<ge> 0\<close>
  each has exactly \<open>max_mention_length\<close> entries: a run of consecutive increasing
  token indices followed by \<open>-1\<close> padding.
\<close>

theorem entity_position_ids_shape:
  assumes "convert_example tk ll m ut um ex = Inr f" and "0 \<le> m"
  shows "length (entity_position_ids f) = 2 \<and>
    (\<forall>ps\<in>set (entity_position_ids f). length ps = nat m \<and>
       (\<exists>s k. k \<le> nat m \<and> ps = map int [s..<s + k] @ replicate (nat m - k) (-1)))"
proof -
  obtain sa ea sb eb where a: "sa \<le> ea" and b: "sb \<le> eb"
    and pids: "entity_position_ids f = [position_ids m (sa, ea), position_ids m (sb, eb)]"
    using convert_example_Inr_spans [OF assms(1)] by blast
  have shape: "length (position_ids m (s, e)) = nat m \<and>
      (\<exists>s' k. k \<le> nat m \<and> position_ids m (s, e) = map int [s'..<s' + k] @ replicate (nat m - k) (-1))"
    if "s \<le> e" for s e
  proof -
    let ?k = "min (e - s) (nat m)"
    have eq: "position_ids m (s, e) = map int [s..<s + ?k] @ replicate (nat m - ?k) (-1)"
      by (rule position_ids_eq [OF that assms(2)])
    have "?k \<le> nat m" by simp
    then have "\<exists>s' k. k \<le> nat m \<and> position_ids m (s, e) = map int [s'..<s' + k] @ replicate (nat m - k) (-1)"
      using eq by blast
    moreover have "length (position_ids m (s, e)) = nat m" using eq by simp
    ultimately show ?thesis by blast
  qed
  show ?thesis using shape [OF a] shape [OF b] by (simp add: pids)
qed

theorem entity_position_ids_shape_witness:
  "length (entity_position_ids (projr (convert_example sample_tokenizer [''no_relation'', ''lives_in''] 6 False False sample_example))) = 2 \<and>
   entity_position_ids (projr (convert_example sample_tokenizer [''no_relation'', ''lives_in''] 6 False False sample_example)) =
     [[1, 2, 3, 4, -1, -1], [12, 13, 14, 15, 16, -1]]"
proof -
  have c: "convert_example sample_tokenizer [''no_relation'', ''lives_in''] 6 False False sample_example =
     Inr (projr (convert_example sample_tokenizer [''no_relation'', ''lives_in''] 6 False False sample_example))"
    by code_simp
  have "length (entity_position_ids (projr (convert_example sample_tokenizer [''no_relation'', ''lives_in''] 6 False False sample_example))) = 2"
    using entity_position_ids_shape [OF c] by simp
  moreover have "entity_position_ids (projr (convert_example sample_tokenizer [''no_relation'', ''lives_in''] 6 False False sample_example)) =
     [[1, 2, 3, 4, -1, -1], [12, 13, 14, 15, 16, -1]]"
    by code_simp
  ultimately show ?thesis by blast
qed

text \<open>
  C5. The word arrays are parallel: the attention mask is all ones and the segment ids
  all zeros, both as long as the token sequence (at least the classification and
  separator tokens), and the word ids have that length too whenever the tokenizer's
  \<open>convert_tokens_to_ids\<close> returns one id per token.
\<close>

theorem convert_example_word_arrays:
  assumes "convert_example tk ll m ut um ex = Inr f"
    and "\<forall>ts. length (convert_tokens_to_ids tk ts) = length ts"
  shows "length (word_ids f) = length (word_segment_ids f) \<and>
    length (word_segment_ids f) = length (word_attention_mask f) \<and>
    (\<forall>x\<in>set (word_segment_ids f). x = 0) \<and> (\<forall>x\<in>set (word_attention_mask f). x = 1) \<and>
    2 \<le> length (word_attention_mask f)"
proof -
  obtain ns sa ea where "0 < sa" "sa \<le> ea" "ea < length (fst (encode_tokens tk um ex ns))"
    and w: "word_ids f = convert_tokens_to_ids tk (fst (encode_tokens tk um ex ns))"
      "word_segment_ids f = replicate (length (fst (encode_tokens tk um ex ns))) 0"
      "word_attention_mask f = replicate (length (fst (encode_tokens tk um ex ns))) 1"
    using convert_example_Inr_spans [OF assms(1)] by blast
  then have "2 \<le> length (fst (encode_tokens tk um ex ns))" by linarith
  then show ?thesis using w assms(2) by simp
qed

theorem convert_example_word_arrays_witness:
  "length (word_ids (projr (convert_example sample_tokenizer [''no_relation'', ''lives_in''] 6 False False sample_example))) = 18"
proof -
  have c: "convert_example sample_tokenizer [''no_relation'', ''lives_in''] 6 False False sample_example =
     Inr (projr (convert_example sample_tokenizer [''no_relation'', ''lives_in''] 6 False False sample_example))"
    by code_simp
  have t: "\<forall>ts. length (convert_tokens_to_ids sample_tokenizer ts) = length ts"
    by (simp add: sample_tokenizer_def)
  have "length (word_ids (projr (convert_example sample_tokenizer [''no_relation'', ''lives_in''] 6 False False sample_example))) =
      length (word_attention_mask (projr (convert_example sample_tokenizer [''no_relation'', ''lives_in''] 6 False False sample_example)))"
    using convert_example_word_arrays [OF c t] by simp
  also have "\<dots> = 18" by code_simp
  finally show ?thesis .
qed

text \<open>
  C6. With marker tokens, each span's recorded token range starts and ends with that
  span's marker: \<open>[HEAD]\<close> for \<open>span_a\<close>, \<open>[TAIL]\<close> for \<open>span_b\<close>, directly
  around the span's own subword tokens.
\<close>

theorem marker_tokens_surround:
  assumes "span_order ex = Inr ns"
  shows "\<exists>s e. snd (encode_tokens tk True ex ns) n = Some (s, e) \<and> s + 2 \<le> e \<and>
     fst (encode_tokens tk True ex ns) ! s = marker_token n \<and>
     fst (encode_tokens tk True ex ns) ! (e - 1) = marker_token n \<and>
     take (e - s - 2) (drop (s + 1) (fst (encode_tokens tk True ex ns))) =
       tokenize tk (py_slice_opt (ex_text ex) (fst (get_span ex n)) (snd (get_span ex n)))"
proof -
  let ?toks = "fst (encode_tokens tk True ex ns)"
  let ?body = "tokenize tk (py_slice_opt (ex_text ex) (fst (get_span ex n)) (snd (get_span ex n)))"
  have "n \<in> set ns" using set_span_order [OF assms] by (cases n) simp_all
  then obtain s e where sp: "snd (encode_tokens tk True ex ns) n = Some (s, e)" and le: "s \<le> e"
    and lt: "e < length ?toks"
    and seg: "take (e - s) (drop s ?toks) = [marker_token n] @ ?body @ [marker_token n]"
    using encode_tokens_segment [of n ns tk True ex] by (auto simp: span_segment_def marker_seg_def)
  have "length (take (e - s) (drop s ?toks)) = e - s" using lt le by simp
  then have len: "e - s = length ?body + 2" using seg by simp
  then have e_eq: "e = s + (length ?body + 2)" using le by linarith
  have first: "?toks ! s = marker_token n"
    using nth_of_take_drop [OF seg, of 0] len lt by simp
  have last: "?toks ! (e - 1) = marker_token n"
    using nth_of_take_drop [OF seg, of "length ?body + 1"] len lt e_eq by (simp add: nth_append)
  have body: "take (e - s - 2) (drop (s + 1) ?toks) = ?body"
  proof -
    have "drop 1 (take (e - s) (drop s ?toks)) = ?body @ [marker_token n]"
      using seg by simp
    then have "take (e - s - 1) (drop (s + 1) ?toks) = ?body @ [marker_token n]"
      by (simp add: drop_take add.commute)
    then have "take (length ?body) (take (e - s - 1) (drop (s + 1) ?toks)) = ?body"
      by simp
    then show ?thesis using len by (simp add: min_def)
  qed
  have "s + 2 \<le> e" using e_eq by simp
  then show ?thesis using sp first last body by blast
qed

theorem marker_tokens_surround_witness:
  "fst (encode_tokens sample_tokenizer True sample_example [Span_a, Span_b]) ! 14 = ''[TAIL]'' \<and>
   snd (encode_tokens sample_tokenizer True sample_example [Span_a, Span_b]) Span_b = Some (14, 21)"
proof -
  have o: "span_order sample_example = Inr [Span_a, Span_b]" by (simp add: sample_example_def span_order_def)
  have sp: "snd (encode_tokens sample_tokenizer True sample_example [Span_a, Span_b]) Span_b = Some (14, 21)"
    by code_simp
  have "fst (encode_tokens sample_tokenizer True sample_example [Span_a, Span_b]) ! 14 = marker_token Span_b"
    using marker_tokens_surround [OF o, of sample_tokenizer Span_b] sp by auto
  then show ?thesis using sp by (simp add: marker_token_def TAIL_TOKEN_def)
qed

text \<open>The loop with and without markers: the positions in the text agree, and the
  marker version is two tokens longer per span.\<close>

lemma enc_loop_markers:
  "e_cur st1 = e_cur st2 \<Longrightarrow> length (e_tokens st1) = length (e_tokens st2) + k \<Longrightarrow>
   e_cur (enc_loop tk True ex st1 ns) = e_cur (enc_loop tk False ex st2 ns) \<and>
   length (e_tokens (enc_loop tk True ex st1 ns)) =
     length (e_tokens (enc_loop tk False ex st2 ns)) + k + 2 * length ns"
proof (induction ns arbitrary: st1 st2 k)
  case Nil
  then show ?case by simp
next
  case (Cons n ns)
  have "e_cur (enc_step tk True ex st1 n) = e_cur (enc_step tk False ex st2 n)"
    and "length (e_tokens (enc_step tk True ex st1 n)) = length (e_tokens (enc_step tk False ex st2 n)) + (k + 2)"
    using Cons.prems by (simp_all add: enc_step_eq Let_def span_segment_def marker_seg_def)
  then show ?case using Cons.IH by fastforce
qed

lemma length_span_order: "span_order ex = Inr ns \<Longrightarrow> length ns = 2"
  by (auto simp: span_order_def split: option.splits if_splits)

lemma encode_tokens_range_length:
  assumes "n \<in> set ns" and "snd (encode_tokens tk um ex ns) n = Some (s, e)"
  shows "e - s = length (span_segment tk um ex n)"
proof -
  obtain s' e' where "snd (encode_tokens tk um ex ns) n = Some (s', e')" and "s' \<le> e'"
    and "e' < length (fst (encode_tokens tk um ex ns))"
    and "take (e' - s') (drop s' (fst (encode_tokens tk um ex ns))) = span_segment tk um ex n"
    using encode_tokens_segment [OF assms(1)] by blast
  then show ?thesis using assms(2) by (metis diff_le_mono length_drop length_take min_absorb2 less_imp_le option.inject prod.inject)
qed

text \<open>
  C8. The marker tokens are the only difference in length: with \<open>use_marker_token\<close>
  the token sequence is exactly four tokens longer than without, and each span's token
  range exactly two longer (its opening and closing marker).
\<close>

theorem marker_tokens_count:
  assumes "span_order ex = Inr ns"
  shows "length (fst (encode_tokens tk True ex ns)) = length (fst (encode_tokens tk False ex ns)) + 4 \<and>
    (\<forall>n s e s' e'. snd (encode_tokens tk True ex ns) n = Some (s, e) \<longrightarrow>
       snd (encode_tokens tk False ex ns) n = Some (s', e') \<longrightarrow> e - s = e' - s' + 2)"
proof -
  let ?init = "\<lparr>e_tokens = [cls_token tk], e_cur = Some 0, e_token_spans = Map.empty\<rparr> :: enc_state"
  have l: "e_cur (enc_loop tk True ex ?init ns) = e_cur (enc_loop tk False ex ?init ns) \<and>
      length (e_tokens (enc_loop tk True ex ?init ns)) = length (e_tokens (enc_loop tk False ex ?init ns)) + 0 + 2 * length ns"
    by (rule enc_loop_markers) simp_all
  have "length (fst (encode_tokens tk True ex ns)) = length (fst (encode_tokens tk False ex ns)) + 4"
    using l length_span_order [OF assms] by (simp add: encode_tokens_def Let_def)
  moreover have "e - s = e' - s' + 2"
    if "snd (encode_tokens tk True ex ns) n = Some (s, e)" and "snd (encode_tokens tk False ex ns) n = Some (s', e')"
    for n s e s' e'
  proof -
    have n: "n \<in> set ns" using set_span_order [OF assms] by (cases n) simp_all
    show ?thesis
      using encode_tokens_range_length [OF n that(1)] encode_tokens_range_length [OF n that(2)]
      by (simp add: span_segment_def marker_seg_def)
  qed
  ultimately show ?thesis by blast
qed

theorem marker_tokens_count_witness:
  "length (fst (encode_tokens sample_tokenizer True sample_example [Span_a, Span_b])) =
   length (fst (encode_tokens sample_tokenizer False sample_example [Span_a, Span_b])) + 4"
proof -
  have o: "span_order sample_example = Inr [Span_a, Span_b]" by (simp add: sample_example_def span_order_def)
  show ?thesis using marker_tokens_count [OF o, of sample_tokenizer] by (rule conjunct1)
qed

text \<open>
  C9. A label missing from the label list raises \<open>KeyError\<close> on that label (once the
  span ends have been compared and the entity types, when they are used, are known).
\<close>

theorem convert_example_unknown_label:
  assumes "span_order ex = Inr ns" and "ex_label ex \<notin> set ll"
    and "ut \<longrightarrow> type_a ex \<in> set ENTITY_TYPES \<and> type_b ex \<in> set ENTITY_TYPES"
  shows "convert_example tk ll m ut um ex = Inl (KeyError (ex_label ex))"
proof -
  have "label_map ll (ex_label ex) = None" using assms(2) label_map_dom by blast
  then show ?thesis using assms(3) by (simp add: convert_example_eq [OF assms(1)] encode_entity_ids_cases)
qed

theorem convert_example_unknown_label_witness:
  "convert_example sample_tokenizer [''no_relation''] 6 False False sample_example = Inl (KeyError ''lives_in'')"
proof -
  have o: "span_order sample_example = Inr [Span_a, Span_b]" by (simp add: sample_example_def span_order_def)
  have "ex_label sample_example \<notin> set [''no_relation'']" by (simp add: sample_example_def)
  moreover have "False \<longrightarrow> type_a sample_example \<in> set ENTITY_TYPES \<and> type_b sample_example \<in> set ENTITY_TYPES"
    by simp
  ultimately show ?thesis
    using convert_example_unknown_label [OF o, of "[''no_relation'']" False sample_tokenizer 6 False]
    by (simp add: sample_example_def)
qed

text \<open>
  C12. A converted example's label is the index of its relation in the label list:
  within range, and the list holds the example's label at that index.
\<close>

theorem convert_example_label_index:
  assumes "convert_example tk ll m ut um ex = Inr f" and "distinct ll"
  shows "0 \<le> label f \<and> nat (label f) < length ll \<and> ll ! nat (label f) = ex_label ex"
  using label_map_inverse [OF assms(2)] convert_example_Inr [OF assms(1)] by blast

theorem convert_example_label_index_witness:
  "label (projr (convert_example sample_tokenizer [''no_relation'', ''lives_in''] 6 True False sample_example)) = 1"
proof -
  have c: "convert_example sample_tokenizer [''no_relation'', ''lives_in''] 6 True False sample_example =
     Inr (projr (convert_example sample_tokenizer [''no_relation'', ''lives_in''] 6 True False sample_example))"
    by code_simp
  have "[''no_relation'', ''lives_in''] !
      nat (label (projr (convert_example sample_tokenizer [''no_relation'', ''lives_in''] 6 True False sample_example))) =
      ''lives_in'' \<and>
      nat (label (projr (convert_example sample_tokenizer [''no_relation'', ''lives_in''] 6 True False sample_example))) < 2 \<and>
      0 \<le> label (projr (convert_example sample_tokenizer [''no_relation'', ''lives_in''] 6 True False sample_example))"
    using convert_example_label_index [OF c] by (simp add: sample_example_def)
  then show ?thesis by (auto simp: nth_Cons' split: if_splits)
qed

text \<open>
  C14. With entity type ids on, an entity type outside \<open>ENTITY_TYPES\<close> raises
  \<open>KeyError\<close> on that type, the subject's type being looked up first.
\<close>

theorem convert_example_unknown_type:
  assumes "ut" and "span_order ex = Inr ns"
  shows "(type_a ex \<notin> set ENTITY_TYPES \<longrightarrow>
            convert_example tk ll m ut um ex = Inl (KeyError (type_a ex))) \<and>
         (type_a ex \<in> set ENTITY_TYPES \<and> type_b ex \<notin> set ENTITY_TYPES \<longrightarrow>
            convert_example tk ll m ut um ex = Inl (KeyError (type_b ex)))"
  using assms by (simp add: convert_example_eq [OF assms(2)] encode_entity_ids_cases)

theorem convert_example_unknown_type_witness:
  "convert_example sample_tokenizer [''no_relation'', ''lives_in''] 6 True False
     (sample_example\<lparr>type_b := ''SPORT''\<rparr>) = Inl (KeyError ''SPORT'')"
proof -
  have "type_a (sample_example\<lparr>type_b := ''SPORT''\<rparr>) \<in> set ENTITY_TYPES \<and>
      type_b (sample_example\<lparr>type_b := ''SPORT''\<rparr>) \<notin> set ENTITY_TYPES"
    by (simp add: sample_example_def ENTITY_TYPES_def)
  moreover have "span_order (sample_example\<lparr>type_b := ''SPORT''\<rparr>) = Inr [Span_a, Span_b]"
    by (simp add: sample_example_def span_order_def)
  ultimately show ?thesis
    using convert_example_unknown_type [of True "sample_example\<lparr>type_b := ''SPORT''\<rparr>" "[Span_a, Span_b]"
        sample_tokenizer "[''no_relation'', ''lives_in'']" 6 False]
    by simp
qed

text \<open>
  C16. Entity ids: with type ids on, two ids in \<open>1..17\<close>, each the position of the
  entity's type in \<open>ENTITY_TYPES\<close> plus one (0 is left for padding); otherwise the
  constant \<open>[1, 1]\<close>.
\<close>

theorem convert_example_entity_ids:
  assumes "convert_example tk ll m ut um ex = Inr f"
  shows "if ut then length (entity_ids f) = 2 \<and> (\<forall>x\<in>set (entity_ids f). 1 \<le> x \<and> x \<le> 17) \<and>
            ENTITY_TYPES ! nat (entity_ids f ! 0 - 1) = type_a ex \<and>
            ENTITY_TYPES ! nat (entity_ids f ! 1 - 1) = type_b ex
         else entity_ids f = [1, 1]"
proof -
  have e: "encode_entity_ids ut ex = Inr (entity_ids f)" using convert_example_Inr [OF assms] by blast
  show ?thesis
  proof (cases ut)
    case True
    then have ta: "type_a ex \<in> set ENTITY_TYPES" and tb: "type_b ex \<in> set ENTITY_TYPES"
      and ids: "entity_ids f = [the (type_map (type_a ex)), the (type_map (type_b ex))]"
      using e by (simp_all add: encode_entity_ids_cases split: if_splits)
    obtain va where va: "type_map (type_a ex) = Some va" using ta type_map_dom by blast
    obtain vb where vb: "type_map (type_b ex) = Some vb" using tb type_map_dom by blast
    show ?thesis using True ids va vb type_map_inverse [OF va] type_map_inverse [OF vb] by simp
  next
    case False
    then show ?thesis using e by (simp add: encode_entity_ids_cases)
  qed
qed

theorem convert_example_entity_ids_witness:
  "entity_ids (projr (convert_example sample_tokenizer [''no_relation'', ''lives_in''] 6 True False sample_example)) = [13, 2] \<and>
   ENTITY_TYPES ! 12 = ''PERSON''"
proof -
  have c: "convert_example sample_tokenizer [''no_relation'', ''lives_in''] 6 True False sample_example =
     Inr (projr (convert_example sample_tokenizer [''no_relation'', ''lives_in''] 6 True False sample_example))"
    by code_simp
  have "ENTITY_TYPES ! nat (entity_ids (projr (convert_example sample_tokenizer [''no_relation'', ''lives_in''] 6 True False sample_example)) ! 0 - 1) =
      type_a sample_example"
    using convert_example_entity_ids [OF c] by simp
  moreover have "entity_ids (projr (convert_example sample_tokenizer [''no_relation'', ''lives_in''] 6 True False sample_example)) = [13, 2]"
    by code_simp
  ultimately show ?thesis by (simp add: sample_example_def)
qed

text \<open>
  C15. Converting a list of examples succeeds exactly when every example converts, and
  then yields their features in order; otherwise it raises the error of the first
  example that fails, all examples before it converting.
\<close>

theorem convert_examples_to_features_ok:
  "(convert_examples_to_features tk ll m ut um exs = Inr fs \<longleftrightarrow>
      list_all2 (\<lambda>ex f. convert_example tk ll m ut um ex = Inr f) exs fs) \<and>
   (convert_examples_to_features tk ll m ut um exs = Inl err \<longleftrightarrow>
      (\<exists>i < length exs. convert_example tk ll m ut um (exs ! i) = Inl err \<and>
         (\<forall>j < i. \<exists>f. convert_example tk ll m ut um (exs ! j) = Inr f)))"
proof (induction exs arbitrary: fs)
  case Nil
  then show ?case by auto
next
  case (Cons ex exs)
  show ?case
  proof (cases "convert_example tk ll m ut um ex")
    case (Inl e)
    let ?P = "\<lambda>i. i < length (ex # exs) \<and> convert_example tk ll m ut um ((ex # exs) ! i) = Inl err \<and>
          (\<forall>j < i. \<exists>f. convert_example tk ll m ut um ((ex # exs) ! j) = Inr f)"
    have "(\<exists>i. ?P i) \<longleftrightarrow> e = err"
    proof
      assume "\<exists>i. ?P i"
      then obtain i where i: "?P i" by blast
      show "e = err"
      proof (cases i)
        case 0
        then show ?thesis using i Inl by simp
      next
        case (Suc k)
        then have "\<exists>f. convert_example tk ll m ut um ex = Inr f" using i by force
        then show ?thesis using Inl by simp
      qed
    next
      assume "e = err"
      then have "?P 0" using Inl by simp
      then show "\<exists>i. ?P i" by blast
    qed
    then show ?thesis using Inl by (auto simp: list_all2_Cons1)
  next
    case (Inr f)
    let ?P = "\<lambda>i. i < length (ex # exs) \<and> convert_example tk ll m ut um ((ex # exs) ! i) = Inl err \<and>
          (\<forall>j < i. \<exists>f. convert_example tk ll m ut um ((ex # exs) ! j) = Inr f)"
    let ?Q = "\<lambda>i. i < length exs \<and> convert_example tk ll m ut um (exs ! i) = Inl err \<and>
          (\<forall>j < i. \<exists>f. convert_example tk ll m ut um (exs ! j) = Inr f)"
    have err: "(\<exists>i. ?P i) \<longleftrightarrow> (\<exists>k. ?Q k)"
    proof
      assume "\<exists>i. ?P i"
      then obtain i where i: "?P i" by blast
      then obtain k where k: "i = Suc k" using Inr by (cases i) auto
      have "\<forall>j < k. \<exists>f. convert_example tk ll m ut um (exs ! j) = Inr f"
      proof (intro allI impI)
        fix j
        assume "j < k"
        then have "Suc j < i" using k by simp
        then have "\<exists>f. convert_example tk ll m ut um ((ex # exs) ! Suc j) = Inr f" using i by blast
        then show "\<exists>f. convert_example tk ll m ut um (exs ! j) = Inr f" by simp
      qed
      then have "?Q k" using i k by simp
      then show "\<exists>k. ?Q k" by blast
    next
      assume "\<exists>k. ?Q k"
      then obtain k where k: "?Q k" by blast
      then have "?P (Suc k)" using Inr by (auto simp: less_Suc_eq_0_disj)
      then show "\<exists>i. ?P i" by blast
    qed
    let ?R = "\<lambda>ex f. convert_example tk ll m ut um ex = Inr f"
    have iff: "\<And>fs'. convert_examples_to_features tk ll m ut um exs = Inr fs' \<longleftrightarrow> list_all2 ?R exs fs'"
      using Cons.IH by blast
    have err_ih: "convert_examples_to_features tk ll m ut um exs = Inl err \<longleftrightarrow> (\<exists>k. ?Q k)"
      using Cons.IH by blast
    have eq: "convert_examples_to_features tk ll m ut um (ex # exs) =
        (case convert_examples_to_features tk ll m ut um exs of Inl e \<Rightarrow> Inl e | Inr fs' \<Rightarrow> Inr (f # fs'))"
      using Inr by simp
    show ?thesis
    proof
      show "convert_examples_to_features tk ll m ut um (ex # exs) = Inr fs \<longleftrightarrow> list_all2 ?R (ex # exs) fs"
      proof
        assume "convert_examples_to_features tk ll m ut um (ex # exs) = Inr fs"
        then obtain fs' where "convert_examples_to_features tk ll m ut um exs = Inr fs'" "fs = f # fs'"
          using eq by (auto split: sum.splits)
        then show "list_all2 ?R (ex # exs) fs" using iff Inr by simp
      next
        assume "list_all2 ?R (ex # exs) fs"
        then obtain f' fs' where fs: "fs = f' # fs'" "?R ex f'" and rest: "list_all2 ?R exs fs'"
          by (auto simp: list_all2_Cons1)
        have "convert_examples_to_features tk ll m ut um exs = Inr fs'" using iff rest by blast
        then show "convert_examples_to_features tk ll m ut um (ex # exs) = Inr fs"
          using fs Inr eq by simp
      qed
    next
      have "convert_examples_to_features tk ll m ut um (ex # exs) = Inl err \<longleftrightarrow>
          convert_examples_to_features tk ll m ut um exs = Inl err"
        using eq by (auto split: sum.splits)
      then show "convert_examples_to_features tk ll m ut um (ex # exs) = Inl err \<longleftrightarrow> (\<exists>i. ?P i)"
        using err_ih err by blast
    qed
  qed
qed

theorem convert_examples_to_features_ok_witness:
  "list_all2 (\<lambda>ex f. convert_example sample_tokenizer [''no_relation'', ''lives_in''] 6 False False ex = Inr f)
     [sample_example, sample_example]
     [projr (convert_example sample_tokenizer [''no_relation'', ''lives_in''] 6 False False sample_example),
      projr (convert_example sample_tokenizer [''no_relation'', ''lives_in''] 6 False False sample_example)]"
proof -
  have "convert_examples_to_features sample_tokenizer [''no_relation'', ''lives_in''] 6 False False
      [sample_example, sample_example] =
    Inr [projr (convert_example sample_tokenizer [''no_relation'', ''lives_in''] 6 False False sample_example),
         projr (convert_example sample_tokenizer [''no_relation'', ''lives_in''] 6 False False sample_example)]"
    by code_simp
  then show ?thesis
    using convert_examples_to_features_ok [of sample_tokenizer "[''no_relation'', ''lives_in'']" 6 False False
        "[sample_example, sample_example]"] by blast
qed

text \<open>
  C19. The token sequence starts with the tokenizer's classification token and ends
  with its separator token, and both entities' token ranges lie strictly between them.
\<close>

theorem encode_tokens_frame:
  assumes "span_order ex = Inr ns"
  shows "hd (fst (encode_tokens tk um ex ns)) = cls_token tk \<and>
   last (fst (encode_tokens tk um ex ns)) = sep_token tk \<and>
   (\<forall>n. \<exists>s e. snd (encode_tokens tk um ex ns) n = Some (s, e) \<and> 0 < s \<and>
      e < length (fst (encode_tokens tk um ex ns)))"
proof -
  let ?init = "\<lparr>e_tokens = [cls_token tk], e_cur = Some 0, e_token_spans = Map.empty\<rparr> :: enc_state"
  obtain w where "e_tokens (enc_loop tk um ex ?init ns) = e_tokens ?init @ w"
    using enc_loop_tokens_prefix by blast
  then have "hd (fst (encode_tokens tk um ex ns)) = cls_token tk \<and>
      last (fst (encode_tokens tk um ex ns)) = sep_token tk"
    by (simp add: encode_tokens_def Let_def)
  moreover have "\<exists>s e. snd (encode_tokens tk um ex ns) n = Some (s, e) \<and> 0 < s \<and>
      e < length (fst (encode_tokens tk um ex ns))" for n
  proof -
    have "n \<in> set ns" using set_span_order [OF assms] by (cases n) simp_all
    then show ?thesis using encode_tokens_segment by blast
  qed
  ultimately show ?thesis by blast
qed

theorem encode_tokens_frame_witness:
  "hd (fst (encode_tokens sample_tokenizer True sample_example [Span_a, Span_b])) = ''<s>'' \<and>
   snd (encode_tokens sample_tokenizer True sample_example [Span_a, Span_b]) Span_b = Some (14, 21)"
proof -
  have o: "span_order sample_example = Inr [Span_a, Span_b]" by (simp add: sample_example_def span_order_def)
  have "hd (fst (encode_tokens sample_tokenizer True sample_example [Span_a, Span_b])) = cls_token sample_tokenizer"
    using encode_tokens_frame [OF o, of sample_tokenizer True] by blast
  moreover have "snd (encode_tokens sample_tokenizer True sample_example [Span_a, Span_b]) Span_b = Some (14, 21)"
    by code_simp
  ultimately show ?thesis by (simp add: sample_tokenizer_def)
qed

text \<open>
  C20. A negative \<open>max_mention_length\<close> is not rejected: Python's \<open>[:k]\<close> with
  \<open>k < 0\<close> drops the last \<open>-k\<close> positions and no padding is added, so the arrays are
  shorter than the span instead of \<open>max_mention_length\<close> long.
\<close>

theorem position_ids_negative_length:
  assumes "m < 0" and "s \<le> e"
  shows "position_ids m (s, e) = take (nat (int (e - s) + m)) (map int [s..<e]) \<and>
    (s < e \<longrightarrow> length (position_ids m (s, e)) < e - s)"
proof -
  have "position_ids m (s, e) = take (nat (int (e - s) + m)) (map int [s..<e])"
    using assms by (simp add: position_ids_def py_slice_def py_index_def max_def add.commute)
  moreover have "s < e \<Longrightarrow> nat (int (e - s) + m) < e - s" using assms(1) by linarith
  ultimately show ?thesis by simp
qed

theorem position_ids_negative_length_witness:
  "position_ids (-1) (1, 4) = [1, 2]"
proof -
  have "position_ids (-1) (1, 4) = take (nat (int (4 - 1) + (-1))) (map int [1..<4])"
    using position_ids_negative_length [of "-1" 1 4] by simp
  then show ?thesis by code_simp
qed

text \<open>
  C30. The span ends are compared first (line 105): an example whose span end is still
  \<open>None\<close> makes the conversion raise \<open>TypeError\<close> for \<open><\<close> before any token, entity
  type or label is looked at.
\<close>

theorem convert_example_none_end:
  assumes "snd (span_a ex) = None \<or> snd (span_b ex) = None"
  shows "convert_example tk ll m ut um ex = Inl (TypeError ''<'')"
proof -
  have "span_order ex = Inl (TypeError ''<'')"
    using assms by (auto simp: span_order_def split: option.splits)
  then show ?thesis by (rule convert_example_order_error)
qed

theorem convert_example_none_end_witness:
  "convert_example sample_tokenizer [''no_relation''] 6 True True
     (sample_example\<lparr>span_b := (Some 14, None), type_b := ''SPORT''\<rparr>) = Inl (TypeError ''<'')"
proof -
  have "snd (span_a (sample_example\<lparr>span_b := (Some 14, None), type_b := ''SPORT''\<rparr>)) = None \<or>
      snd (span_b (sample_example\<lparr>span_b := (Some 14, None), type_b := ''SPORT''\<rparr>)) = None"
    by simp
  then show ?thesis by (rule convert_example_none_end)
qed

end
