(* ===== verification/Feature_Types.thy ===== *)
theory Feature_Types
  imports Features
begin

text \<open>
  The shape every \<open>InputFeatures\<close> object built by \<open>convert_examples_to_features\<close>
  has, as the bool-valued predicate \<open>wf_features\<close>: the parallel word arrays of one
  length (at least the classification and separator tokens), segment ids all zero and
  attention mask all one, two entity ids in \<open>1..17\<close> (0 is the padding id), two
  position arrays of \<open>max_mention_length\<close> entries, each a token index strictly after
  the classification token and before the end of the sequence, or the padding \<open>-1\<close>,
  constant entity segment ids and mask, and a label index within the label list.
\<close>

section \<open>Definitions\<close>

definition wf_features :: "int \<Rightarrow> nat \<Rightarrow> input_features \<Rightarrow> bool" where
  "wf_features max_mention_length nlabels f =
     (let n = length (word_ids f) in
      length (word_segment_ids f) = n \<and> length (word_attention_mask f) = n \<and> 2 \<le> n \<and>
      list_all (\<lambda>x. x = 0) (word_segment_ids f) \<and> list_all (\<lambda>x. x = 1) (word_attention_mask f) \<and>
      length (entity_ids f) = 2 \<and> list_all (\<lambda>x. 1 \<le> x \<and> x \<le> 17) (entity_ids f) \<and>
      length (entity_position_ids f) = 2 \<and>
      list_all (\<lambda>ps. length ps = nat max_mention_length \<and>
                      list_all (\<lambda>p. p = -1 \<or> (0 < p \<and> p < int n)) ps) (entity_position_ids f) \<and>
      entity_segment_ids f = [0, 0] \<and> entity_attention_mask f = [1, 1] \<and>
      0 \<le> label f \<and> label f < int nlabels)"

section \<open>Lemmas\<close>

lemma position_ids_range:
  assumes "0 < s" and "s \<le> e" and "e < n" and "0 \<le> m"
  shows "length (position_ids m (s, e)) = nat m \<and>
    list_all (\<lambda>p. p = -1 \<or> (0 < p \<and> p < int n)) (position_ids m (s, e))"
  using position_ids_eq [OF assms(2,4)] assms by (auto simp: list_all_iff)

lemma encode_entity_ids_range:
  assumes "encode_entity_ids ut ex = Inr ids"
  shows "length ids = 2 \<and> list_all (\<lambda>x. 1 \<le> x \<and> x \<le> 17) ids"
proof (cases ut)
  case True
  then obtain a b where "type_map (type_a ex) = Some a" and "type_map (type_b ex) = Some b"
    and "ids = [a, b]"
    using assms by (auto simp: encode_entity_ids_def py_getitem_def split: option.splits sum.splits)
  then show ?thesis using type_map_inverse by fastforce
next
  case False
  then show ?thesis using assms by (auto simp: encode_entity_ids_def)
qed

lemma convert_example_wf:
  assumes "convert_example tk ll m ut um ex = Inr f" and "0 \<le> m"
    and "\<forall>ts. length (convert_tokens_to_ids tk ts) = length ts"
  shows "wf_features m (length ll) f"
proof -
  obtain ns sa ea sb eb where o: "span_order ex = Inr ns"
    and a: "0 < sa" "sa \<le> ea" "ea < length (fst (encode_tokens tk um ex ns))"
    and b: "0 < sb" "sb \<le> eb" "eb < length (fst (encode_tokens tk um ex ns))"
    and pids: "entity_position_ids f = [position_ids m (sa, ea), position_ids m (sb, eb)]"
    and w: "word_ids f = convert_tokens_to_ids tk (fst (encode_tokens tk um ex ns))"
      "word_segment_ids f = replicate (length (fst (encode_tokens tk um ex ns))) 0"
      "word_attention_mask f = replicate (length (fst (encode_tokens tk um ex ns))) 1"
    using convert_example_Inr_spans [OF assms(1)] by blast
  have f: "encode_entity_ids ut ex = Inr (entity_ids f)" "label_map ll (ex_label ex) = Some (label f)"
    using convert_example_Inr [OF assms(1)] by blast+
  have n: "length (word_ids f) = length (fst (encode_tokens tk um ex ns))" using w(1) assms(3) by simp
  have l: "0 \<le> label f \<and> label f < int (length ll)"
    using f(2) py_enum_dict_range [of 0 ll "ex_label ex" "label f"] by (simp add: label_map_def)
  have e: "length (entity_ids f) = 2 \<and> list_all (\<lambda>x. 1 \<le> x \<and> x \<le> 17) (entity_ids f)"
    using f(1) encode_entity_ids_range by blast
  have "entity_segment_ids f = [0, 0] \<and> entity_attention_mask f = [1, 1]"
    using assms(1) by (auto simp: convert_example_eq [OF o] split: sum.splits option.splits)
  then show ?thesis
    using n pids l e w a position_ids_range [OF a assms(2)] position_ids_range [OF b assms(2)]
    by (simp add: wf_features_def Let_def list_all_iff)
qed

lemma convert_examples_to_features_Cons_Inr:
  assumes "convert_examples_to_features tk ll m ut um (ex # exs) = Inr fs"
  shows "\<exists>f fs'. convert_example tk ll m ut um ex = Inr f \<and>
    convert_examples_to_features tk ll m ut um exs = Inr fs' \<and> fs = f # fs'"
  using assms by (auto split: sum.splits)

section \<open>Properties\<close>

text \<open>
  C23. Every feature object \<open>convert_examples_to_features\<close> returns is well-formed
  (\<open>wf_features\<close>) for a non-negative \<open>max_mention_length\<close>, whatever the tokenizer,
  provided it gives one id per token.
\<close>

theorem convert_examples_to_features_wf:
  assumes "convert_examples_to_features tk ll m ut um exs = Inr fs" and "0 \<le> m"
    and "\<forall>ts. length (convert_tokens_to_ids tk ts) = length ts"
  shows "list_all (wf_features m (length ll)) fs"
  using assms(1)
proof (induction exs arbitrary: fs)
  case Nil
  then show ?case by simp
next
  case (Cons ex exs)
  then obtain f fs' where "convert_example tk ll m ut um ex = Inr f"
    and "convert_examples_to_features tk ll m ut um exs = Inr fs'" and "fs = f # fs'"
    using convert_examples_to_features_Cons_Inr by blast
  then show ?case using Cons.IH convert_example_wf assms(2,3) by simp
qed

theorem convert_examples_to_features_wf_witness:
  "list_all (wf_features 3 (length [''no_relation'', ''lives_in'']))
     (projr (convert_examples_to_features sample_tokenizer [''no_relation'', ''lives_in''] 3 True True
        [sample_example, sample_example\<lparr>span_a := (Some 14, Some 20), span_b := (Some 0, Some 5)\<rparr>]))"
proof -
  have c: "convert_examples_to_features sample_tokenizer [''no_relation'', ''lives_in''] 3 True True
        [sample_example, sample_example\<lparr>span_a := (Some 14, Some 20), span_b := (Some 0, Some 5)\<rparr>] =
      Inr (projr (convert_examples_to_features sample_tokenizer [''no_relation'', ''lives_in''] 3 True True
        [sample_example, sample_example\<lparr>span_a := (Some 14, Some 20), span_b := (Some 0, Some 5)\<rparr>]))"
    by code_simp
  have t: "\<forall>ts. length (convert_tokens_to_ids sample_tokenizer ts) = length ts"
    by (simp add: sample_tokenizer_def)
  show ?thesis by (rule convert_examples_to_features_wf [OF c _ t]) simp
qed

end
