(* ===== verification/Spec2Isabelle.thy ===== *)
theory Spec2Isabelle
  imports Builder_Spec Feature_Types
begin

text \<open>
  \<^bold>\<open>A verification library for the relation-classification preprocessing of
  \<open>src/examples/relation_classification/utils.py\<close>.\<close>

  \<^bold>\<open>The program.\<close> Two stages turn a dataset of sentences with two marked entities
  into the numeric arrays a transformer encoder reads.
  \<^item> The \<^emph>\<open>example builder\<close>, \<open>DatasetProcessor._create_examples\<close> (lines 55--88),
    rebuilds the text of each JSON record by joining its tokens with spaces and records,
    for subject and object, the character range their tokens occupy (\<open>InputExample\<close>).
    \<open>get_label_list\<close> (lines 48--53) collects the relation labels of the training split.
  \<^item> The \<^emph>\<open>feature encoder\<close>, \<open>convert_examples_to_features\<close> (lines 91--158),
    re-tokenizes each text with a subword tokenizer around the two spans, optionally
    wrapping each span in \<open>[HEAD]\<close>/\<open>[TAIL]\<close> markers, and emits token ids, masks,
    entity type ids, per-entity position ids padded with \<open>-1\<close>, and the label index
    (\<open>InputFeatures\<close>).
  The encoder consumes the builder's examples and the label list; it calls the
  tokenizer, an external library, through \<open>tokenize\<close>, \<open>convert_tokens_to_ids\<close>,
  \<open>cls_token\<close> and \<open>sep_token\<close>.

  \<^bold>\<open>The theories.\<close>
  \<^item> \<open>Prelude\<close>: Python semantics the code relies on, as executable HOL: slicing
    \<open>xs[i:j]\<close> with clamping and negative indices (\<open>py_slice\<close>, \<open>py_slice_from\<close>),
    \<open>' '.join\<close> (\<open>py_join\<close>), \<open>str.rstrip\<close> (\<open>rstrip\<close> over \<open>py_isspace\<close>), dictionaries
    built from \<open>enumerate\<close> (\<open>py_enum_dict\<close>), \<open>d[k]\<close> raising \<open>KeyError\<close>
    (\<open>py_getitem\<close>, errors as \<open>py_error + 'a\<close>, \<open>KeyError\<close> or \<open>TypeError\<close>), slices
    with \<open>None\<close> bounds (\<open>py_slice_opt\<close>, \<open>xs[None:j]\<close> is \<open>xs[:j]\<close>), \<open>str(n)\<close> (\<open>py_str_nat\<close>) and its
    inverse \<open>int(s)\<close>. Lemmas: slices of appended lists, slicing commutes with
    \<open>rstrip\<close> up to trailing whitespace, lookup in enumerate-dictionaries, and the round
    trip \<open>int(str(n)) = n\<close>.
  \<^item> \<open>Example_Builder\<close>: the records \<open>raw_item\<close> (a JSON record) and \<open>input_example\<close>;
    \<open>token_spans\<close>, \<open>entity_order\<close>, the loop state \<open>build_state\<close> (\<open>text\<close>,
    \<open>cur\<close>, \<open>char_spans\<close>), one iteration \<open>build_step\<close>, the loop \<open>build_loop\<close>,
    \<open>build_text\<close> (loop plus trailing tokens), \<open>create_example\<close> (one record) and
    \<open>create_examples\<close> (a split). A span is a pair of \<open>int option\<close>: the code starts
    each entity at \<open>[None, None]\<close> (line 72) and the loop fills both in, so the
    builder never leaves a \<open>None\<close>, but an \<open>InputExample\<close> built elsewhere may.
    The invariant \<open>spans_inv\<close> (each recorded span slices out its entity's joined
    tokens and a space) holds initially and is kept by every
    iteration and by the final append.
  \<^item> \<open>Labels\<close>: \<open>get_label_list\<close> and the dictionary \<open>label_map\<close> of line 93.
  \<^item> \<open>Features\<close>: \<open>ENTITY_TYPES\<close>, the markers, \<open>input_features\<close>, the tokenizer
    interface record \<open>tokenizer\<close>, \<open>tokenize\<close> (the Roberta dispatch), \<open>type_map\<close>,
    the loop state \<open>enc_state\<close> with \<open>enc_step\<close>/\<open>enc_loop\<close>, \<open>encode_tokens\<close>,
    \<open>position_ids\<close>, \<open>encode_entity_ids\<close>, \<open>encode_position_ids\<close>,
    \<open>span_order\<close> (line 105, which raises \<open>TypeError\<close> when a span end is \<open>None\<close>),
    \<open>convert_example\<close> (one loop iteration, in Python's evaluation order) and
    \<open>convert_examples_to_features\<close> (first exception aborts). The invariant \<open>enc_inv\<close>
    says each recorded token range delimits the span's segment (markers around the
    tokenized span text); \<open>enc_loop_markers\<close> compares the loop with and without
    markers.
  \<^item> \<open>Builder_Spec\<close>: the builder's contract without its loop. \<open>wf_item\<close>
    (entities inside the tokens, disjoint, not adjacent, no empty token), the text after
    \<open>k\<close> tokens \<open>spec_text\<close>, the offsets \<open>char_offset\<close> of tokens in the joined
    text, and \<open>spec_example\<close>; one loop iteration refines it (\<open>build_step_refines\<close>),
    and so do the loop over both entities and the whole record.
  \<^item> \<open>Feature_Types\<close>: the well-formedness predicate \<open>wf_features\<close> of an
    \<open>InputFeatures\<close> object, kept by every conversion.
  \<^item> This theory: properties spanning builder, vocabulary and encoder.

  \<^bold>\<open>What is proved.\<close> The builder's spans slice out the entity tokens (C1), are
  non-empty, ordered and disjoint (C7), and ids are distinct (C13). The vocabulary starts
  with \<open>no_relation\<close>, is sorted and duplicate-free (C4), depends only on the set of
  training relations, not on the order or repetition of records (C11), and
  \<open>label_map\<close> inverts it (C10).
  The encoder's position ids select the entity's tokens (C2), have the fixed length and
  the run-then-padding shape (C3); the word arrays are parallel (C5); markers surround
  each entity (C6) and are the only tokens markers add, four in all (C8); unknown labels and
  types raise \<open>KeyError\<close> (C9, C14); labels and entity ids index the vocabulary and
  \<open>ENTITY_TYPES\<close> (C12, C16); the list conversion is the map of the example
  conversion up to the first error (C15); the token sequence is framed by the
  classification and separator tokens (C19); a negative \<open>max_mention_length\<close> keeps
  only a prefix of the positions and adds no padding (C20). Across components: on built examples the
  encoder's span order agrees with the builder's (C17), and a training split always
  converts with labels that index back to the records' relations (C18).
  The builder refines its loop-free specification on well-formed records (C21), while
  adjacent entities get two spaces at their boundary and an object span shifted by one
  (C22). Every feature object is
  well-formed (C23). With duplicate labels, \<open>label_map\<close> keeps the last position
  (C24). A dev or test relation unseen in training raises \<open>KeyError\<close> on the first
  such relation (C25). End to end, the encoder's segment for each entity of a built
  example is the tokenization of that entity's joined tokens and the following space
  (C26). An entity ending the sentence has its span end one past the text, any other
  ends inside it (C27). A dev or test split whose relations were all seen in training
  converts completely (C28). Token spans past the end of the tokens raise nothing and
  give one-character spans beyond the text (C29). An example whose span end is \<open>None\<close> raises \<open>TypeError\<close>
  at the comparison of line 105, before any lookup (C30).

  \<^bold>\<open>Bounds and loops.\<close> Both loops run over two-element lists (the entity order and the
  span order), so they are structural recursions (\<open>build_loop\<close>, \<open>enc_loop\<close>); no
  fuel is needed. Python integers are \<open>int\<close>; token and character counts \<open>nat\<close>.

  \<^bold>\<open>Plan.\<close> Modelled first, as the core: the builder's span arithmetic and the
  encoder's token and position bookkeeping; then the vocabulary and the error paths;
  then the refinement of the builder by its specification, the well-formedness of the
  features, the compositions across splits and stages, and the boundary cases (span
  ends, out-of-range spans); then the spans as the code types them, \<open>None\<close> until
  set, with the \<open>TypeError\<close> of line 105 as an error path. Next: the exact character spans when \<open>rstrip\<close> removes
  trailing whitespace of the last token.
  No property is of the termination kind: every loop of the program is a \<open>for\<close> loop
  over a finite list (two entities, two spans, the records, the examples), modelled by
  structural recursion, whose termination the definitions already carry.

  \<^bold>\<open>Not modelled.\<close> Reading the JSON files (\<open>open\<close>/\<open>json.load\<close>, lines 56--57
  of \<open>_create_examples\<close>; \<open>create_examples\<close> starts from the loaded list of
  records, and missing keys are not representable), the progress bar \<open>tqdm\<close>, and
  the tokenizer's internals: it is the record \<open>tokenizer\<close>, and properties that
  need more of it (one id per token) say so as hypotheses. Strings are lists of 8-bit
  characters, so code points beyond that range are outside the model.
\<close>

section \<open>Helper lemmas\<close>

lemma list_all2_map_eq:
  "list_all2 P xs ys \<Longrightarrow> (\<And>x y. P x y \<Longrightarrow> g y = h x) \<Longrightarrow> map g ys = map h xs"
  by (induction rule: list_all2_induct) auto

text \<open>Without entity type ids, an example whose span ends are set fails only on an
  unknown label.\<close>

lemma convert_example_untyped:
  assumes "snd (span_a ex) = Some ea" and "snd (span_b ex) = Some eb"
  shows "(ex_label ex \<in> set ll \<longrightarrow> (\<exists>f. convert_example tk ll m False um ex = Inr f)) \<and>
   (ex_label ex \<notin> set ll \<longrightarrow> convert_example tk ll m False um ex = Inl (KeyError (ex_label ex)))"
  using label_map_dom [of ll]
  by (auto simp: convert_example_eq [OF span_order_ends [OF assms]] encode_entity_ids_cases
      split: option.splits)

text \<open>Without entity type ids the only error on examples with set span ends is an
  unknown label, and the first unknown label of the list is the one raised.\<close>

lemma convert_examples_first_unknown_label:
  "\<forall>ex\<in>set exs. \<exists>ea eb. snd (span_a ex) = Some ea \<and> snd (span_b ex) = Some eb \<Longrightarrow>
   \<exists>ex\<in>set exs. ex_label ex \<notin> set ll \<Longrightarrow>
   convert_examples_to_features tk ll m False um exs =
     Inl (KeyError (hd (filter (\<lambda>l. l \<notin> set ll) (map ex_label exs))))"
proof (induction exs)
  case Nil
  then show ?case by simp
next
  case (Cons ex exs)
  obtain ea eb where e: "snd (span_a ex) = Some ea" "snd (span_b ex) = Some eb"
    using Cons.prems(1) by auto
  show ?case
  proof (cases "ex_label ex \<in> set ll")
    case True
    then have "\<exists>ex\<in>set exs. ex_label ex \<notin> set ll" using Cons.prems(2) by auto
    then show ?thesis
      using True Cons.IH Cons.prems(1) convert_example_untyped [OF e, of ll tk m um] by auto
  next
    case False
    then show ?thesis using convert_example_untyped [OF e, of ll tk m um] by simp
  qed
qed

text \<open>Examples with set span ends whose labels are in a duplicate-free label list (and
  whose entity types are known, when type ids are used) all convert, each label indexing
  back to the example's label.\<close>

lemma examples_convert:
  assumes "set (map ex_label exs) \<subseteq> set ll" and "distinct ll"
    and "ut \<longrightarrow> (\<forall>ex\<in>set exs. type_a ex \<in> set ENTITY_TYPES \<and> type_b ex \<in> set ENTITY_TYPES)"
    and "\<forall>ex\<in>set exs. \<exists>ea eb. snd (span_a ex) = Some ea \<and> snd (span_b ex) = Some eb"
  shows "\<exists>fs. convert_examples_to_features tk ll m ut um exs = Inr fs \<and>
    map (\<lambda>f. ll ! nat (label f)) fs = map ex_label exs"
proof -
  have conv: "\<exists>f. convert_example tk ll m ut um ex = Inr f" if ex: "ex \<in> set exs" for ex
  proof -
    obtain ea eb where e: "snd (span_a ex) = Some ea" "snd (span_b ex) = Some eb"
      using ex assms(4) by blast
    have "ex_label ex \<in> set ll" using ex assms(1) by auto
    then obtain l where "label_map ll (ex_label ex) = Some l" using label_map_dom by blast
    then show ?thesis
      using assms(3) ex by (auto simp: convert_example_eq [OF span_order_ends [OF e]] encode_entity_ids_cases)
  qed
  obtain fs where fs: "convert_examples_to_features tk ll m ut um exs = Inr fs"
    and all: "list_all2 (\<lambda>ex f. convert_example tk ll m ut um ex = Inr f) exs fs"
    using convert_examples_to_features_all [of exs tk ll m ut um] conv by blast
  have "map (\<lambda>f. ll ! nat (label f)) fs = map ex_label exs"
    using all
  proof (rule list_all2_map_eq)
    fix ex f
    assume "convert_example tk ll m ut um ex = Inr f"
    then have "label_map ll (ex_label ex) = Some (label f)" using convert_example_Inr by blast
    then show "ll ! nat (label f) = ex_label ex" using label_map_inverse [OF assms(2)] by blast
  qed
  then show ?thesis using fs by blast
qed

text \<open>The types of built examples are the records' types.\<close>

lemma built_types_known:
  assumes "ut \<longrightarrow> (\<forall>it\<in>set items. subj_type it \<in> set ENTITY_TYPES \<and> obj_type it \<in> set ENTITY_TYPES)"
  shows "ut \<longrightarrow> (\<forall>ex\<in>set (create_examples set_type items).
    type_a ex \<in> set ENTITY_TYPES \<and> type_b ex \<in> set ENTITY_TYPES)"
proof -
  have a: "type_a ` set (create_examples set_type items) = subj_type ` set items"
    and b: "type_b ` set (create_examples set_type items) = obj_type ` set items"
    using create_examples_fields [of set_type items] by (metis set_map)+
  show ?thesis
  proof (intro impI ballI conjI)
    fix ex
    assume ut and ex: "ex \<in> set (create_examples set_type items)"
    have "type_a ex \<in> subj_type ` set items" using imageI [OF ex, of type_a] a by simp
    then show "type_a ex \<in> set ENTITY_TYPES" using \<open>ut\<close> assms by auto
    have "type_b ex \<in> obj_type ` set items" using imageI [OF ex, of type_b] b by simp
    then show "type_b ex \<in> set ENTITY_TYPES" using \<open>ut\<close> assms by auto
  qed
qed

text \<open>A split whose relations are all in a duplicate-free label list converts, labels
  indexing back to the records' relations.\<close>

lemma split_converts:
  assumes "set (map relation items) \<subseteq> set ll" and "distinct ll"
    and "ut \<longrightarrow> (\<forall>it\<in>set items. subj_type it \<in> set ENTITY_TYPES \<and> obj_type it \<in> set ENTITY_TYPES)"
  shows "\<exists>fs. convert_examples_to_features tk ll m ut um (create_examples set_type items) = Inr fs \<and>
    map (\<lambda>f. ll ! nat (label f)) fs = map relation items"
proof -
  have lab: "map ex_label (create_examples set_type items) = map relation items"
    using create_examples_fields by blast
  have s: "set (map ex_label (create_examples set_type items)) \<subseteq> set ll" using lab assms(1) by simp
  have e: "\<forall>ex\<in>set (create_examples set_type items).
      \<exists>ea eb. snd (span_a ex) = Some ea \<and> snd (span_b ex) = Some eb"
    using create_examples_ends by blast
  obtain fs where "convert_examples_to_features tk ll m ut um (create_examples set_type items) = Inr fs"
    and "map (\<lambda>f. ll ! nat (label f)) fs = map ex_label (create_examples set_type items)"
    using examples_convert [OF s assms(2) built_types_known [OF assms(3)] e] by blast
  then show ?thesis using lab by auto
qed

text \<open>A split holding a relation outside the label list raises \<open>KeyError\<close> on the
  first such relation, without entity type ids.\<close>

lemma split_first_unknown:
  assumes "r \<in> set (map relation items)" and "r \<notin> set ll"
  shows "convert_examples_to_features tk ll m False um (create_examples set_type items) =
    Inl (KeyError (hd (filter (\<lambda>l. l \<notin> set ll) (map relation items))))"
proof -
  have labels: "map ex_label (create_examples set_type items) = map relation items"
    using create_examples_fields by blast
  have "r \<in> set (map ex_label (create_examples set_type items))" using labels assms(1) by simp
  then have "\<exists>ex\<in>set (create_examples set_type items). ex_label ex \<notin> set ll"
    using assms(2) by auto
  moreover have "\<forall>ex\<in>set (create_examples set_type items).
      \<exists>ea eb. snd (span_a ex) = Some ea \<and> snd (span_b ex) = Some eb"
    using create_examples_ends by blast
  ultimately show ?thesis
    using convert_examples_first_unknown_label [of "create_examples set_type items" ll tk m um] labels
    by simp
qed

section \<open>Properties across the components\<close>

text \<open>
  C17. On an example built by the builder, the encoder's span order (by end offset) puts
  the subject first exactly when the builder did (subject starting strictly first): the
  two stages agree on the order of the entities, ties included, and line 105 raises
  nothing since both ends are set.
\<close>

theorem span_order_of_created_example:
  "span_order (create_example set_type i item) =
     Inr (if subj_start item < obj_start item then [Span_a, Span_b] else [Span_b, Span_a])"
proof -
  obtain a1 b1 a2 b2 where a: "span_a (create_example set_type i item) = (Some a1, Some b1)"
    and b: "span_b (create_example set_type i item) = (Some a2, Some b2)"
    and lt: "a1 < b1" "a2 < b2"
    and ord: "if subj_start item < obj_start item then b1 \<le> a2 else b2 \<le> a1"
    using create_example_spans_order by blast
  have o: "span_order (create_example set_type i item) =
      Inr (if b1 < b2 then [Span_a, Span_b] else [Span_b, Span_a])"
    using a b by (simp add: span_order_ends)
  show ?thesis
  proof (cases "subj_start item < obj_start item")
    case True
    then have "b1 < b2" using ord lt by simp
    then show ?thesis using True o by simp
  next
    case False
    then have "\<not> b1 < b2" using ord lt by simp
    then show ?thesis using False o by simp
  qed
qed

text \<open>
  C18. The training split always converts: with the label list built from it, every
  example of the split is encoded (when entity type ids are on, provided every entity
  type is in \<open>ENTITY_TYPES\<close>), and each feature's label indexes the label list at the
  record's relation.
\<close>

theorem train_split_converts:
  assumes "ut \<longrightarrow> (\<forall>it\<in>set items. subj_type it \<in> set ENTITY_TYPES \<and> obj_type it \<in> set ENTITY_TYPES)"
  shows "\<exists>fs. convert_examples_to_features tk (get_label_list items) m ut um (get_train_examples items) = Inr fs \<and>
     map (\<lambda>f. get_label_list items ! nat (label f)) fs = map relation items"
proof -
  have "set (map relation items) \<subseteq> set (get_label_list items)" and "distinct (get_label_list items)"
    using get_label_list_set [of items] by auto
  then show ?thesis
    using split_converts [OF _ _ assms] by (simp add: get_train_examples_def)
qed

theorem train_split_converts_witness:
  "\<exists>fs. convert_examples_to_features sample_tokenizer (get_label_list [sample_item]) 4 True True
       (get_train_examples [sample_item]) = Inr fs \<and>
     map (\<lambda>f. get_label_list [sample_item] ! nat (label f)) fs = [''lives_in'']"
proof -
  have "True \<longrightarrow> (\<forall>it\<in>set [sample_item]. subj_type it \<in> set ENTITY_TYPES \<and> obj_type it \<in> set ENTITY_TYPES)"
    by (simp add: ENTITY_TYPES_def sample_item_def)
  from train_split_converts [OF this, of sample_tokenizer 4 True] show ?thesis
    by (simp add: sample_item_def)
qed

text \<open>
  C25. The label list comes from the training split only: a dev or test split holding a
  relation that no training record has (other than \<open>no_relation\<close>) cannot be
  converted without entity type ids; the conversion raises \<open>KeyError\<close> on the first
  such relation in the split's order.
\<close>

theorem unseen_relation_raises:
  assumes "r \<in> set (map relation items)" and "r \<notin> set (map relation train)" and "r \<noteq> ''no_relation''"
  shows "convert_examples_to_features tk (get_label_list train) m False um (get_dev_examples items) =
      Inl (KeyError (hd (filter (\<lambda>l. l \<notin> insert ''no_relation'' (set (map relation train)))
                                (map relation items)))) \<and>
    convert_examples_to_features tk (get_label_list train) m False um (get_test_examples items) =
      Inl (KeyError (hd (filter (\<lambda>l. l \<notin> insert ''no_relation'' (set (map relation train)))
                                (map relation items))))"
proof -
  have setll: "set (get_label_list train) = insert ''no_relation'' (set (map relation train))"
    using get_label_list_set [of train] by blast
  have "r \<notin> set (get_label_list train)" using assms(2,3) setll by simp
  then have "convert_examples_to_features tk (get_label_list train) m False um (create_examples st items) =
      Inl (KeyError (hd (filter (\<lambda>l. l \<notin> set (get_label_list train)) (map relation items))))" for st
    using split_first_unknown [OF assms(1)] by blast
  then show ?thesis unfolding get_dev_examples_def get_test_examples_def setll by blast
qed

theorem unseen_relation_raises_witness:
  "convert_examples_to_features sample_tokenizer (get_label_list [sample_item]) 4 False True
     (get_dev_examples [sample_item, sample_item\<lparr>relation := ''born_in''\<rparr>]) =
   Inl (KeyError ''born_in'')"
proof -
  have r: "''born_in'' \<in> set (map relation [sample_item, sample_item\<lparr>relation := ''born_in''\<rparr>])"
    "''born_in'' \<notin> set (map relation [sample_item])" "''born_in'' \<noteq> ''no_relation''"
    by (simp_all add: sample_item_def)
  have h: "hd (filter (\<lambda>l. l \<notin> insert ''no_relation'' (set (map relation [sample_item])))
      (map relation [sample_item, sample_item\<lparr>relation := ''born_in''\<rparr>])) = ''born_in''"
    by (simp add: sample_item_def)
  from unseen_relation_raises [OF r, of sample_tokenizer 4 True]
  show ?thesis unfolding h by (rule conjunct1)
qed

text \<open>
  C26. From record to encoder: for a well-formed record whose text does not end in
  whitespace, the segment the encoder delimits for each entity of the built example
  (its markers around the tokenized span text, C2 and C6) is the tokenization of the
  entity's own tokens joined by spaces, followed by one space unless the entity ends
  the sentence.
\<close>

theorem encoder_segments_of_built_example:
  assumes "wf_item item" and "\<not> py_isspace (last (last (token item)))"
  shows "span_segment tk um (create_example set_type i item) Span_a =
      marker_seg um Span_a @
      tokenize tk (py_join '' '' (py_slice (token item) (subj_start item) (subj_end item + 1)) @
                   (if subj_end item + 1 < int (length (token item)) then '' '' else [])) @
      marker_seg um Span_a \<and>
    span_segment tk um (create_example set_type i item) Span_b =
      marker_seg um Span_b @
      tokenize tk (py_join '' '' (py_slice (token item) (obj_start item) (obj_end item + 1)) @
                   (if obj_end item + 1 < int (length (token item)) then '' '' else [])) @
      marker_seg um Span_b"
proof -
  have wf: "0 \<le> subj_start item" "subj_start item \<le> subj_end item"
    "subj_end item < int (length (token item))" "0 \<le> obj_start item" "obj_start item \<le> obj_end item"
    "obj_end item < int (length (token item))" "list_all (\<lambda>w. w \<noteq> []) (token item)"
    using assms(1) by (simp_all add: wf_item_def)
  moreover have "token item \<noteq> []" using wf(1-3) by auto
  ultimately have "last (token item) \<noteq> []" by (auto simp: list_all_iff)
  then show ?thesis
    using spec_span_text [OF wf(1-3)] spec_span_text [OF wf(4-6)] assms(2)
    by (simp add: create_example_eq_spec [OF assms(1)] span_segment_def get_span_def spec_example_def)
qed

theorem encoder_segments_of_built_example_witness:
  "span_segment sample_tokenizer True (create_example ''train'' 0 sample_item) Span_b =
     [''[TAIL]'', ''P'', ''a'', ''r'', ''i'', ''s'', ''[TAIL]'']"
proof -
  have wf: "wf_item sample_item" by code_simp
  have sp: "\<not> py_isspace (last (last (token sample_item)))" by code_simp
  have "span_segment sample_tokenizer True (create_example ''train'' 0 sample_item) Span_b =
      marker_seg True Span_b @
      tokenize sample_tokenizer (py_join '' '' (py_slice (token sample_item) (obj_start sample_item) (obj_end sample_item + 1)) @
                   (if obj_end sample_item + 1 < int (length (token sample_item)) then '' '' else [])) @
      marker_seg True Span_b"
    using encoder_segments_of_built_example [OF wf sp, of sample_tokenizer True] by (rule conjunct2)
  also have "\<dots> = [''[TAIL]'', ''P'', ''a'', ''r'', ''i'', ''s'', ''[TAIL]'']"
    by (simp add: sample_item_def marker_seg_def marker_token_def TAIL_TOKEN_def tokenize_def
        sample_tokenizer_def py_slice_nonneg)
  finally show ?thesis .
qed

text \<open>
  C28. The positive side of C25: a dev or test split whose relations all occur in the
  training split (or are \<open>no_relation\<close>) converts completely with the training label
  list (entity types known, when type ids are used), and each feature's label indexes
  back to its record's relation.
\<close>

theorem known_relations_convert:
  assumes "set (map relation items) \<subseteq> insert ''no_relation'' (set (map relation train))"
    and "ut \<longrightarrow> (\<forall>it\<in>set items. subj_type it \<in> set ENTITY_TYPES \<and> obj_type it \<in> set ENTITY_TYPES)"
  shows "(\<exists>fs. convert_examples_to_features tk (get_label_list train) m ut um (get_dev_examples items) = Inr fs \<and>
      map (\<lambda>f. get_label_list train ! nat (label f)) fs = map relation items) \<and>
    (\<exists>fs. convert_examples_to_features tk (get_label_list train) m ut um (get_test_examples items) = Inr fs \<and>
      map (\<lambda>f. get_label_list train ! nat (label f)) fs = map relation items)"
proof -
  have "set (map relation items) \<subseteq> set (get_label_list train)" and "distinct (get_label_list train)"
    using get_label_list_set [of train] assms(1) by auto
  then show ?thesis
    using split_converts [OF _ _ assms(2)] by (simp add: get_dev_examples_def get_test_examples_def)
qed

theorem known_relations_convert_witness:
  "\<exists>fs. convert_examples_to_features sample_tokenizer (get_label_list [sample_item]) 4 True True
      (get_test_examples [sample_item\<lparr>relation := ''no_relation''\<rparr>, sample_item]) = Inr fs \<and>
    map (\<lambda>f. get_label_list [sample_item] ! nat (label f)) fs = [''no_relation'', ''lives_in'']"
proof -
  have r: "set (map relation [sample_item\<lparr>relation := ''no_relation''\<rparr>, sample_item]) \<subseteq>
      insert ''no_relation'' (set (map relation [sample_item]))"
    by (simp add: sample_item_def)
  have t: "True \<longrightarrow> (\<forall>it\<in>set [sample_item\<lparr>relation := ''no_relation''\<rparr>, sample_item].
      subj_type it \<in> set ENTITY_TYPES \<and> obj_type it \<in> set ENTITY_TYPES)"
    by (simp add: sample_item_def ENTITY_TYPES_def)
  have m: "map relation [sample_item\<lparr>relation := ''no_relation''\<rparr>, sample_item] = [''no_relation'', ''lives_in'']"
    by (simp add: sample_item_def)
  from known_relations_convert [OF r t, of sample_tokenizer 4 True]
  show ?thesis unfolding m by (rule conjunct2)
qed

end
